theory Spec2Isabelle
  imports Main
begin

section \<open>JavaScript values\<close>

text \<open>
  The booking card (\<^verbatim>\<open>portal/src/components/BookingsCard.jsx\<close>) works on values parsed
  from JSON and on strings typed into a form. A value is one of the JSON shapes, or
  \<^verbatim>\<open>undefined\<close> (what reading an absent property gives).

  \<^item> Numbers are integers (the numbers on which \<^verbatim>\<open>String(n)\<close> is the decimal numeral).
  \<^item> Strings are ASCII, so \<^verbatim>\<open>length\<close> counts characters.
  \<^item> The property list of an object is in the engine's own enumeration order and holds
    each key once.
\<close>

datatype jsval =
    JUndefined
  | JNull
  | JBool bool
  | JNum int
  | JStr string
  | JArr "jsval list"
  | JObj "(string \<times> jsval) list"

text \<open>
  A thrown error object: its class name and its message. The wording of the messages that
  the engine itself produces is engine specific; the texts used below for those stand for
  whatever the engine says.
\<close>

datatype js_error = Thrown string string

definition TypeError :: "string \<Rightarrow> js_error" where
  "TypeError msg = Thrown ''TypeError'' msg"

fun truthy :: "jsval \<Rightarrow> bool" where
  "truthy JUndefined = False"
| "truthy JNull = False"
| "truthy (JBool b) = b"
| "truthy (JNum n) = (n \<noteq> 0)"
| "truthy (JStr s) = (s \<noteq> [])"
| "truthy (JArr xs) = True"
| "truthy (JObj kvs) = True"

text \<open>\<^verbatim>\<open>a || b\<close> and \<^verbatim>\<open>a ?? b\<close> on values already computed.\<close>

definition js_or :: "jsval \<Rightarrow> jsval \<Rightarrow> jsval" where
  "js_or a b = (if truthy a then a else b)"

fun nullish :: "jsval \<Rightarrow> bool" where
  "nullish JUndefined = True"
| "nullish JNull = True"
| "nullish v = False"

definition js_coalesce :: "jsval \<Rightarrow> jsval \<Rightarrow> jsval" where
  "js_coalesce a b = (if nullish a then b else a)"

text \<open>
  Reading a property \<^verbatim>\<open>v.k\<close>, for the keys this component reads (none of them an array
  index or a prototype member other than \<^verbatim>\<open>length\<close>). Reading from \<^verbatim>\<open>null\<close> or
  \<^verbatim>\<open>undefined\<close> throws.
\<close>

fun get_prop :: "jsval \<Rightarrow> string \<Rightarrow> js_error + jsval" where
  "get_prop JUndefined k = Inl (TypeError ''Cannot read properties of undefined'')"
| "get_prop JNull k = Inl (TypeError ''Cannot read properties of null'')"
| "get_prop (JObj kvs) k = Inr (case map_of kvs k of None \<Rightarrow> JUndefined | Some v \<Rightarrow> v)"
| "get_prop (JStr s) k = Inr (if k = ''length'' then JNum (int (length s)) else JUndefined)"
| "get_prop (JArr xs) k = Inr (if k = ''length'' then JNum (int (length xs)) else JUndefined)"
| "get_prop (JBool b) k = Inr JUndefined"
| "get_prop (JNum n) k = Inr JUndefined"

subsection \<open>Numbers and strings\<close>

definition digit_char :: "nat \<Rightarrow> char" where
  "digit_char d = ''0123456789'' ! d"

fun digits :: "nat \<Rightarrow> string" where
  "digits n = (if n < 10 then [digit_char n] else digits (n div 10) @ [digit_char (n mod 10)])"

declare digits.simps [simp del]

definition show_int :: "int \<Rightarrow> string" where
  "show_int n = (if n < 0 then CHR ''-'' # digits (nat (- n)) else digits (nat n))"

text \<open>A number that may be \<^verbatim>\<open>NaN\<close> is an \<open>int option\<close>; \<open>None\<close> is \<^verbatim>\<open>NaN\<close>.\<close>

definition show_num :: "int option \<Rightarrow> string" where
  "show_num v = (case v of None \<Rightarrow> ''NaN'' | Some n \<Rightarrow> show_int n)"

text \<open>\<^verbatim>\<open>s.padStart(2, "0")\<close>\<close>

definition padStart2 :: "string \<Rightarrow> string" where
  "padStart2 s = replicate (2 - length s) CHR ''0'' @ s"

text \<open>
  \<^verbatim>\<open>xs.join(sep)\<close> on strings already converted, stopping at the first conversion that
  threw.
\<close>

fun join_results :: "string \<Rightarrow> (js_error + string) list \<Rightarrow> js_error + string" where
  "join_results sep [] = Inr []"
| "join_results sep [r] = r"
| "join_results sep (r # rs) =
     (case r of
        Inl e \<Rightarrow> Inl e
      | Inr s \<Rightarrow> (case join_results sep rs of Inl e \<Rightarrow> Inl e | Inr t \<Rightarrow> Inr (s @ sep @ t)))"

text \<open>
  \<^verbatim>\<open>String(v)\<close>, which is also what a template literal and \<^verbatim>\<open>new Date(v)\<close> apply to
  an object. An array joins its elements with a comma, \<^verbatim>\<open>null\<close> and \<^verbatim>\<open>undefined\<close>
  elements giving the empty string. A plain object gives \<^verbatim>\<open>[object Object]\<close>, unless it
  has a property \<^verbatim>\<open>toString\<close> of its own: parsed from JSON that property is no function,
  and the conversion throws.
\<close>

fun to_string :: "jsval \<Rightarrow> js_error + string" where
  "to_string JUndefined = Inr ''undefined''"
| "to_string JNull = Inr ''null''"
| "to_string (JBool b) = Inr (if b then ''true'' else ''false'')"
| "to_string (JNum n) = Inr (show_int n)"
| "to_string (JStr s) = Inr s"
| "to_string (JArr xs) =
     join_results '','' (map (\<lambda>x. if nullish x then Inr [] else to_string x) xs)"
| "to_string (JObj kvs) =
     (if ''toString'' \<in> fst ` set kvs
      then Inl (TypeError ''Cannot convert object to primitive value'')
      else Inr ''[object Object]'')"

text \<open>\<^verbatim>\<open>s.toLowerCase()\<close>, \<^verbatim>\<open>s.trim()\<close> and \<^verbatim>\<open>s.includes(q)\<close> on ASCII strings.\<close>

definition lower_char :: "char \<Rightarrow> char" where
  "lower_char c =
     (case map_of (zip ''ABCDEFGHIJKLMNOPQRSTUVWXYZ'' ''abcdefghijklmnopqrstuvwxyz'') c of
        None \<Rightarrow> c
      | Some l \<Rightarrow> l)"

definition toLowerCase :: "string \<Rightarrow> string" where
  "toLowerCase s = map lower_char s"

definition is_space :: "char \<Rightarrow> bool" where
  "is_space c = (c \<in> set [CHR '' '', CHR 0x09, CHR 0x0A, CHR 0x0B, CHR 0x0C, CHR 0x0D])"

definition trim :: "string \<Rightarrow> string" where
  "trim s = rev (dropWhile is_space (rev (dropWhile is_space s)))"

primrec str_includes :: "string \<Rightarrow> string \<Rightarrow> bool" where
  "str_includes [] q = (q = [])"
| "str_includes (c # s) q = (take (length q) (c # s) = q \<or> str_includes s q)"

section \<open>Dates\<close>

text \<open>
  A \<^verbatim>\<open>Date\<close> is its time value: milliseconds since the epoch, or \<^verbatim>\<open>NaN\<close> for an invalid
  date (\<open>None\<close>). What a \<^verbatim>\<open>Date\<close> does depends on the machine the page runs on; that
  part is a parameter:

  \<^item> \<open>timezoneOffsetMs t\<close>: how far local time is behind UTC at the instant \<open>t\<close>, in
    milliseconds (New York in winter: 18000000). \<^verbatim>\<open>getTimezoneOffset()\<close> returns this
    number divided by 60000, as a double: 300 for New York in winter, and a number
    with a fraction where the offset of the zone is not whole minutes (New York before
    1883, on local mean time: 17762000 milliseconds, 296.0333... minutes);
  \<^item> \<open>timezoneOffsetLocalMs w\<close>: the same offset for a local clock reading \<open>w\<close> (the
    reading written as if it were UTC). ECMAScript reads a repeated or skipped local
    time with the offset in force before the transition;
  \<^item> \<open>fraction_text a\<close>: what \<^verbatim>\<open>String((a / 60000) % 60)\<close> prints for a number \<open>a\<close> of
    milliseconds that is not a whole number of minutes. The value is a double with a
    fraction, and its digits are floating-point arithmetic, which is not modelled;
  \<^item> \<open>parse_other\<close>: what \<^verbatim>\<open>Date.parse\<close> makes of a string that is not one of the two
    wall-clock formats of this component (other ISO forms, and the formats an engine
    accepts on its own);
  \<^item> \<open>formatToParts t\<close>: the parts \<^verbatim>\<open>Intl.DateTimeFormat("en-US", {month: "numeric",
    day: "numeric", hour: "numeric", minute: "2-digit", hour12: true, timeZone:
    "America/New_York"}).formatToParts(d)\<close> returns, as pairs of type and value;
    \<open>None\<close> when the engine throws (a time zone it does not know).
\<close>

record date_env =
  timezoneOffsetMs :: "int \<Rightarrow> int"
  timezoneOffsetLocalMs :: "int \<Rightarrow> int"
  fraction_text :: "int \<Rightarrow> string"
  parse_other :: "string \<Rightarrow> int option"
  formatToParts :: "int \<Rightarrow> (string \<times> string) list option"

subsection \<open>The calendar\<close>

definition msPerDay :: int where "msPerDay = 86400000"
definition msPerHour :: int where "msPerHour = 3600000"
definition msPerMinute :: int where "msPerMinute = 60000"
definition msPerSecond :: int where "msPerSecond = 1000"

text \<open>Day number of a date of the proleptic Gregorian calendar; day 0 is 1970-01-01.\<close>

definition days_from_civil :: "int \<Rightarrow> int \<Rightarrow> int \<Rightarrow> int" where
  "days_from_civil y m d =
     (let y' = (if m \<le> 2 then y - 1 else y);
          era = y' div 400;
          yoe = y' mod 400;
          mp = (if m > 2 then m - 3 else m + 9);
          doy = (153 * mp + 2) div 5 + d - 1;
          doe = yoe * 365 + yoe div 4 - yoe div 100 + doy
      in era * 146097 + doe - 719468)"

text \<open>The date (year, month 1..12, day) of a day number.\<close>

definition civil_from_days :: "int \<Rightarrow> int \<times> int \<times> int" where
  "civil_from_days z0 =
     (let z = z0 + 719468;
          era = z div 146097;
          doe = z mod 146097;
          yoe = (doe - doe div 1460 + doe div 36524 - doe div 146096) div 365;
          doy = doe - (365 * yoe + yoe div 4 - yoe div 100);
          mp = (5 * doy + 2) div 153;
          d = doy - (153 * mp + 2) div 5 + 1;
          m = (if mp < 10 then mp + 3 else mp - 9);
          y = yoe + era * 400
      in (if m \<le> 2 then y + 1 else y, m, d))"

definition leap_year :: "int \<Rightarrow> bool" where
  "leap_year y = (y mod 4 = 0 \<and> (y mod 100 \<noteq> 0 \<or> y mod 400 = 0))"

definition days_in_month :: "int \<Rightarrow> int \<Rightarrow> int" where
  "days_in_month y m =
     (if m = 2 then (if leap_year y then 29 else 28)
      else if m = 4 \<or> m = 6 \<or> m = 9 \<or> m = 11 then 30
      else 31)"

definition make_time :: "int \<Rightarrow> int \<Rightarrow> int \<Rightarrow> int \<Rightarrow> int \<Rightarrow> int \<Rightarrow> int" where
  "make_time y mo d h mi sec =
     days_from_civil y mo d * msPerDay + h * msPerHour + mi * msPerMinute + sec * msPerSecond"

definition time_clip :: "int \<Rightarrow> int option" where
  "time_clip t = (if \<bar>t\<bar> > 8640000000000000 then None else Some t)"

subsection \<open>Parsing\<close>

definition digit_val :: "char \<Rightarrow> int option" where
  "digit_val c = map_of (zip ''0123456789'' [0, 1, 2, 3, 4, 5, 6, 7, 8, 9]) c"

fun num_of :: "int \<Rightarrow> string \<Rightarrow> int option" where
  "num_of acc [] = Some acc"
| "num_of acc (c # cs) =
     (case digit_val c of None \<Rightarrow> None | Some d \<Rightarrow> num_of (10 * acc + d) cs)"

text \<open>
  The two wall-clock formats: \<^verbatim>\<open>YYYY-MM-DDTHH:mm\<close> and \<^verbatim>\<open>YYYY-MM-DDTHH:mm:ss\<close>, every
  element in its range. The result is year, month, day, hour, minute, second.
\<close>

definition parse_wall :: "string \<Rightarrow> (int \<times> int \<times> int \<times> int \<times> int \<times> int) option" where
  "parse_wall s =
     (if (length s = 16 \<or> length s = 19)
         \<and> s ! 4 = CHR ''-'' \<and> s ! 7 = CHR ''-'' \<and> s ! 10 = CHR ''T'' \<and> s ! 13 = CHR '':''
         \<and> (length s = 19 \<longrightarrow> s ! 16 = CHR '':'')
      then
        (case (num_of 0 (take 4 s), num_of 0 (take 2 (drop 5 s)), num_of 0 (take 2 (drop 8 s)),
               num_of 0 (take 2 (drop 11 s)), num_of 0 (take 2 (drop 14 s)),
               num_of 0 (take 2 (drop 17 s))) of
           (Some y, Some mo, Some d, Some h, Some mi, Some sec) \<Rightarrow>
             if 1 \<le> mo \<and> mo \<le> 12 \<and> 1 \<le> d \<and> d \<le> days_in_month y mo
                \<and> h \<le> 23 \<and> mi \<le> 59 \<and> sec \<le> 59
             then Some (y, mo, d, h, mi, sec)
             else None
         | _ \<Rightarrow> None)
      else None)"

text \<open>
  Reading an offset suffix \<^verbatim>\<open>+HH:MM\<close> or \<^verbatim>\<open>-HH:MM\<close> (hours to 23, minutes to 59) back:
  the minutes local time is ahead of UTC, or \<open>None\<close> when the text is no such suffix.
\<close>

definition parse_offset :: "string \<Rightarrow> int option" where
  "parse_offset z =
     (if length z = 6 \<and> (z ! 0 = CHR ''+'' \<or> z ! 0 = CHR ''-'') \<and> z ! 3 = CHR '':''
      then (case (num_of 0 (take 2 (drop 1 z)), num_of 0 (drop 4 z)) of
              (Some h, Some m) \<Rightarrow>
                if h \<le> 23 \<and> m \<le> 59
                then Some ((if z ! 0 = CHR ''-'' then - 1 else 1) * (60 * h + m))
                else None
            | _ \<Rightarrow> None)
      else None)"

text \<open>
  The instant an offset timestamp \<^verbatim>\<open>YYYY-MM-DDTHH:mm:ss+HH:MM\<close> denotes, in milliseconds
  since the epoch.
\<close>

definition instant_of :: "string \<Rightarrow> int option" where
  "instant_of ts =
     (case (parse_wall (take 19 ts), parse_offset (drop 19 ts)) of
        (Some (y, mo, d, h, mi, sec), Some off) \<Rightarrow>
          Some (make_time y mo d h mi sec - off * msPerMinute)
      | _ \<Rightarrow> None)"

text \<open>
  \<^verbatim>\<open>Date.parse(s)\<close>: a wall-clock string is a reading of the local clock; any other
  string is the engine's business.
\<close>

definition Date_parse :: "date_env \<Rightarrow> string \<Rightarrow> int option" where
  "Date_parse env s =
     (case parse_wall s of
        Some (y, mo, d, h, mi, sec) \<Rightarrow>
          (let w = make_time y mo d h mi sec
           in time_clip (w + timezoneOffsetLocalMs env w))
      | None \<Rightarrow> parse_other env s)"

text \<open>
  \<^verbatim>\<open>new Date(v).getTime()\<close>: a string is parsed, an object is converted to a string
  first (which may throw), anything else is converted to a number.
\<close>

fun new_Date :: "date_env \<Rightarrow> jsval \<Rightarrow> js_error + int option" where
  "new_Date env JUndefined = Inr None"
| "new_Date env JNull = Inr (Some 0)"
| "new_Date env (JBool b) = Inr (Some (if b then 1 else 0))"
| "new_Date env (JNum n) = Inr (time_clip n)"
| "new_Date env (JStr s) = Inr (Date_parse env s)"
| "new_Date env v =
     (case to_string v of Inl e \<Rightarrow> Inl e | Inr s \<Rightarrow> Inr (Date_parse env s))"

subsection \<open>Reading a date in local time\<close>

definition local_time :: "date_env \<Rightarrow> int \<Rightarrow> int" where
  "local_time env t = t - timezoneOffsetMs env t"

text \<open>
  \<^verbatim>\<open>d.getTimezoneOffset()\<close>, a number of minutes that may have a fraction. It is held as
  the milliseconds it is 60000th of, so that no rounding enters; \<open>None\<close> is \<^verbatim>\<open>NaN\<close>.
\<close>

definition getTimezoneOffset :: "date_env \<Rightarrow> int option \<Rightarrow> int option" where
  "getTimezoneOffset env d = map_option (timezoneOffsetMs env) d"

definition getFullYear :: "date_env \<Rightarrow> int option \<Rightarrow> int option" where
  "getFullYear env d =
     map_option (\<lambda>t. fst (civil_from_days (local_time env t div msPerDay))) d"

text \<open>\<^verbatim>\<open>getMonth()\<close> counts from 0.\<close>

definition getMonth :: "date_env \<Rightarrow> int option \<Rightarrow> int option" where
  "getMonth env d =
     map_option (\<lambda>t. fst (snd (civil_from_days (local_time env t div msPerDay))) - 1) d"

definition getDate :: "date_env \<Rightarrow> int option \<Rightarrow> int option" where
  "getDate env d =
     map_option (\<lambda>t. snd (snd (civil_from_days (local_time env t div msPerDay)))) d"

definition getHours :: "date_env \<Rightarrow> int option \<Rightarrow> int option" where
  "getHours env d = map_option (\<lambda>t. (local_time env t mod msPerDay) div msPerHour) d"

definition getMinutes :: "date_env \<Rightarrow> int option \<Rightarrow> int option" where
  "getMinutes env d = map_option (\<lambda>t. (local_time env t mod msPerHour) div msPerMinute) d"

definition getSeconds :: "date_env \<Rightarrow> int option \<Rightarrow> int option" where
  "getSeconds env d = map_option (\<lambda>t. (local_time env t mod msPerMinute) div msPerSecond) d"

text \<open>\<^verbatim>\<open>new Date(d.getTime() + ms)\<close>\<close>

definition date_plus :: "int option \<Rightarrow> int \<Rightarrow> int option" where
  "date_plus d ms = (case d of None \<Rightarrow> None | Some t \<Rightarrow> time_clip (t + ms))"

subsection \<open>New York in 2024\<close>

text \<open>
  A machine set to America/New_York, for the instants of the year 2024: daylight time
  from 2024-03-10 07:00 UTC to 2024-11-03 06:00 UTC. Local readings from 02:00 to 02:59
  on 10 March do not exist and readings from 01:00 to 01:59 on 3 November occur twice;
  both are read with the offset before the transition. Both offsets are whole minutes,
  so no fraction is printed. Besides the wall-clock formats the engine parses offset
  timestamps, and nothing else.
\<close>

definition hour12 :: "int \<Rightarrow> int" where
  "hour12 h = (if h mod 12 = 0 then 12 else h mod 12)"

definition new_york_offset :: "int \<Rightarrow> int" where
  "new_york_offset t =
     (if make_time 2024 3 10 7 0 0 \<le> t \<and> t < make_time 2024 11 3 6 0 0 then 240 else 300)"

definition new_york_offset_local :: "int \<Rightarrow> int" where
  "new_york_offset_local w =
     (if make_time 2024 3 10 3 0 0 \<le> w \<and> w < make_time 2024 11 3 2 0 0 then 240 else 300)"

definition new_york_parts :: "int \<Rightarrow> (string \<times> string) list option" where
  "new_york_parts t =
     (let w = t - new_york_offset t * msPerMinute;
          ymd = civil_from_days (w div msPerDay);
          h = (w mod msPerDay) div msPerHour;
          mi = (w mod msPerHour) div msPerMinute
      in Some [(''month'', show_int (fst (snd ymd))), (''literal'', ''/''),
               (''day'', show_int (snd (snd ymd))), (''literal'', '', ''),
               (''hour'', show_int (hour12 h)), (''literal'', '':''),
               (''minute'', padStart2 (show_int mi)), (''literal'', '' ''),
               (''dayPeriod'', if h < 12 then ''AM'' else ''PM'')])"

definition new_york_2024 :: date_env where
  "new_york_2024 =
     \<lparr> timezoneOffsetMs = (\<lambda>t. new_york_offset t * msPerMinute),
       timezoneOffsetLocalMs = (\<lambda>w. new_york_offset_local w * msPerMinute),
       fraction_text = (\<lambda>a. []),
       parse_other = instant_of,
       formatToParts = new_york_parts \<rparr>"

subsection \<open>New York before 1883\<close>

text \<open>
  A machine set to America/New_York, for the instants before 18 November 1883, when the
  zone was on local mean time, 4 hours 56 minutes and 2 seconds behind UTC. There
  \<^verbatim>\<open>getTimezoneOffset()\<close> is the double 296.03333333333336, and the one fraction that is
  ever printed is \<^verbatim>\<open>String(296.03333333333336 % 60)\<close>. \<^verbatim>\<open>Intl\<close> is left out.
\<close>

definition new_york_1800 :: date_env where
  "new_york_1800 =
     \<lparr> timezoneOffsetMs = (\<lambda>t. 17762000),
       timezoneOffsetLocalMs = (\<lambda>w. 17762000),
       fraction_text = (\<lambda>a. ''56.03333333333336''),
       parse_other = instant_of,
       formatToParts = (\<lambda>t. None) \<rparr>"

section \<open>Small helpers of the component\<close>

subsection \<open>\<^verbatim>\<open>formatDateAny\<close>\<close>

text \<open>
  The five variables the loop over the parts assigns; \<open>None\<close> is \<^verbatim>\<open>undefined\<close>, which a
  template literal prints as such.
\<close>

record part_vars =
  month :: "string option"
  day :: "string option"
  hour :: "string option"
  minute :: "string option"
  dayPeriod :: "string option"

definition no_parts :: part_vars where
  "no_parts = \<lparr> month = None, day = None, hour = None, minute = None, dayPeriod = None \<rparr>"

definition assign_part :: "part_vars \<Rightarrow> string \<times> string \<Rightarrow> part_vars" where
  "assign_part vars p =
     (if fst p = ''month'' then vars\<lparr>month := Some (snd p)\<rparr>
      else if fst p = ''day'' then vars\<lparr>day := Some (snd p)\<rparr>
      else if fst p = ''hour'' then vars\<lparr>hour := Some (snd p)\<rparr>
      else if fst p = ''minute'' then vars\<lparr>minute := Some (snd p)\<rparr>
      else if fst p = ''dayPeriod'' then vars\<lparr>dayPeriod := Some (toLowerCase (snd p))\<rparr>
      else vars)"

definition template_var :: "string option \<Rightarrow> string" where
  "template_var v = (case v of None \<Rightarrow> ''undefined'' | Some s \<Rightarrow> s)"

text \<open>The body of the \<^verbatim>\<open>try\<close> block: \<open>Inl\<close> is an exception on its way to \<^verbatim>\<open>catch\<close>.\<close>

definition formatDateAny_try :: "date_env \<Rightarrow> jsval \<Rightarrow> js_error + string" where
  "formatDateAny_try env v =
     (case new_Date env v of
        Inl e \<Rightarrow> Inl e
      | Inr None \<Rightarrow> to_string v
      | Inr (Some t) \<Rightarrow>
          (case formatToParts env t of
             None \<Rightarrow> Inl (Thrown ''RangeError'' ''Invalid time zone specified'')
           | Some parts \<Rightarrow>
               (let vars = foldl assign_part no_parts parts
                in Inr (template_var (month vars) @ ''-'' @ template_var (day vars) @ '' ''
                        @ template_var (hour vars) @ '':'' @ template_var (minute vars)
                        @ template_var (dayPeriod vars)))))"

text \<open>
  The \<^verbatim>\<open>catch\<close> block returns \<^verbatim>\<open>String(v)\<close>; when that conversion throws too, the
  exception leaves the function.
\<close>

definition formatDateAny :: "date_env \<Rightarrow> jsval \<Rightarrow> js_error + string" where
  "formatDateAny env v =
     (if \<not> truthy v then Inr []
      else (case formatDateAny_try env v of
              Inr s \<Rightarrow> Inr s
            | Inl e \<Rightarrow> to_string v))"

subsection \<open>\<^verbatim>\<open>normalizeRow\<close>\<close>

text \<open>
  A row of the table. The fields \<^verbatim>\<open>id\<close> and \<^verbatim>\<open>note\<close> of the source are \<open>id_key\<close>
  and \<open>note_field\<close> here. Every field but \<open>completed\<close> keeps whatever value the record
  had, so it is a value, not a string.
\<close>

record booking =
  id_key :: jsval
  name :: jsval
  email :: jsval
  phone :: jsval
  note_field :: jsval
  starts_at :: jsval
  created_at :: jsval
  completed :: bool
  tenant_id :: jsval

text \<open>\<^verbatim>\<open>r.k\<close> once \<^verbatim>\<open>r\<close> is known to be neither \<^verbatim>\<open>null\<close> nor \<^verbatim>\<open>undefined\<close>.\<close>

definition field :: "jsval \<Rightarrow> string \<Rightarrow> jsval" where
  "field r k = (case get_prop r k of Inl e \<Rightarrow> JUndefined | Inr v \<Rightarrow> v)"

text \<open>
  \<^verbatim>\<open>r.note || r.notes || [r.service, r.address].filter(Boolean).join(" | ") || ""\<close>: the
  join runs only when both note fields are falsy.
\<close>

definition note_of :: "jsval \<Rightarrow> js_error + jsval" where
  "note_of r =
     (if truthy (field r ''note'') then Inr (field r ''note'')
      else if truthy (field r ''notes'') then Inr (field r ''notes'')
      else (case join_results '' | ''
                   (map to_string (filter truthy [field r ''service'', field r ''address''])) of
              Inl e \<Rightarrow> Inl e
            | Inr j \<Rightarrow> Inr (js_or (JStr j) (JStr []))))"

text \<open>
  \<^verbatim>\<open>r.id ?? r.booking_id ?? r.pk ?? `${r.name || "row"}-${startsAt || i}`\<close>: the template
  is built only when the three id fields are all \<^verbatim>\<open>null\<close> or \<^verbatim>\<open>undefined\<close>.
\<close>

definition id_of :: "jsval \<Rightarrow> jsval \<Rightarrow> nat \<Rightarrow> js_error + jsval" where
  "id_of r startsAt i =
     (if \<not> nullish (field r ''id'') then Inr (field r ''id'')
      else if \<not> nullish (field r ''booking_id'') then Inr (field r ''booking_id'')
      else if \<not> nullish (field r ''pk'') then Inr (field r ''pk'')
      else (case to_string (js_or (field r ''name'') (JStr ''row'')) of
              Inl e \<Rightarrow> Inl e
            | Inr n \<Rightarrow>
                (case to_string (js_or startsAt (JNum (int i))) of
                   Inl e \<Rightarrow> Inl e
                 | Inr t \<Rightarrow> Inr (JStr (n @ ''-'' @ t)))))"

definition normalizeRow :: "jsval \<Rightarrow> nat \<Rightarrow> js_error + booking" where
  "normalizeRow r i =
     (case get_prop r ''starts_at'' of
        Inl e \<Rightarrow> Inl e
      | Inr v \<Rightarrow>
          (let startsAt =
                 js_or (field r ''starts_at'') (js_or (field r ''start'')
                   (js_or (field r ''starts_at_iso'') (js_or (field r ''start_iso'')
                     (js_or (field r ''when'') JNull))));
               createdAt =
                 js_or (field r ''created_at'') (js_or (field r ''created'')
                   (js_or (field r ''created_at_iso'') (js_or (field r ''createdAt'') JNull)))
           in (case note_of r of
                 Inl e \<Rightarrow> Inl e
               | Inr note_v \<Rightarrow>
                   (case id_of r startsAt i of
                      Inl e \<Rightarrow> Inl e
                    | Inr id_v \<Rightarrow>
                        Inr \<lparr> id_key = id_v,
                              name = js_or (field r ''name'') (JStr []),
                              email = js_or (field r ''email'') (JStr []),
                              phone = js_or (field r ''phone'') (JStr []),
                              note_field = note_v,
                              starts_at = startsAt,
                              created_at = createdAt,
                              completed =
                                truthy (js_or (field r ''completed'') (field r ''completed_at'')),
                              tenant_id =
                                js_or (field r ''tenant_id'') (js_or (field r ''tenant'') JNull) \<rparr>))))"

text \<open>\<^verbatim>\<open>items.map((r, i) => normalizeRow(r, i))\<close>, from index \<open>i\<close> on.\<close>

fun normalize_from :: "nat \<Rightarrow> jsval list \<Rightarrow> js_error + booking list" where
  "normalize_from i [] = Inr []"
| "normalize_from i (r # rs) =
     (case normalizeRow r i of
        Inl e \<Rightarrow> Inl e
      | Inr b \<Rightarrow> (case normalize_from (Suc i) rs of Inl e \<Rightarrow> Inl e | Inr bs \<Rightarrow> Inr (b # bs)))"

section \<open>The component\<close>

subsection \<open>State, network and effects\<close>

text \<open>The fields of the form, all strings (the values of the input elements).\<close>

record form_state =
  form_name :: string
  form_email :: string
  form_phone :: string
  form_startsAt :: string
  form_note :: string

definition empty_form :: form_state where
  "empty_form =
     \<lparr> form_name = [], form_email = [], form_phone = [], form_startsAt = [], form_note = [] \<rparr>"

text \<open>A call of \<^verbatim>\<open>fetch\<close>: method, path below the API base, and the object sent as JSON.\<close>

record request =
  req_method :: string
  req_path :: string
  req_body :: "jsval option"

text \<open>
  What the network answers. \<open>text_body\<close> and \<open>json_body\<close> are the outcomes of
  \<^verbatim>\<open>res.text()\<close> and \<^verbatim>\<open>res.json()\<close>, which may reject; \<^verbatim>\<open>res.ok\<close> is a status from 200
  to 299.
\<close>

record response =
  status :: nat
  text_body :: "js_error + string"
  json_body :: "js_error + jsval"

datatype fetch_result = Rejected js_error | Responded response

definition ok :: "response \<Rightarrow> bool" where
  "ok res = (200 \<le> status res \<and> status res \<le> 299)"

text \<open>
  The state of the card (the \<^verbatim>\<open>useState\<close> cells; \<^verbatim>\<open>range\<close> is \<open>range_sel\<close>), followed by
  the record of what it did to the outside: the texts passed to \<^verbatim>\<open>alert\<close>, the errors
  passed to \<^verbatim>\<open>console.error\<close> and the requests sent.
\<close>

record card =
  rows :: "booking list"
  loading :: bool
  range_sel :: string
  search :: string
  hidePast :: bool
  sortBy :: string
  showCompletedOnly :: bool
  showIncompleteOnly :: bool
  form :: form_state
  adding :: bool
  alerts :: "string list"
  console_errors :: "js_error list"
  requests :: "request list"

definition initial_card :: card where
  "initial_card =
     \<lparr> rows = [], loading = False, range_sel = ''7d'', search = [], hidePast = True,
       sortBy = ''upcoming'', showCompletedOnly = False, showIncompleteOnly = False,
       form = empty_form, adding = False, alerts = [], console_errors = [], requests = [] \<rparr>"

text \<open>\<^verbatim>\<open>err.message || err\<close> inside a template literal.\<close>

fun error_text :: "js_error \<Rightarrow> string" where
  "error_text (Thrown cls msg) = (if msg \<noteq> [] then msg else cls)"

text \<open>\<^verbatim>\<open>new Error(txt || `HTTP ${res.status}`)\<close> with \<^verbatim>\<open>txt = await res.text().catch(() => "")\<close>\<close>

definition http_error :: "response \<Rightarrow> js_error" where
  "http_error res =
     (let txt = (case text_body res of Inl e \<Rightarrow> [] | Inr t \<Rightarrow> t)
      in Thrown ''Error'' (if txt \<noteq> [] then txt else ''HTTP '' @ show_int (int (status res))))"

definition apiJson :: "fetch_result \<Rightarrow> js_error + jsval" where
  "apiJson fr =
     (case fr of
        Rejected e \<Rightarrow> Inl e
      | Responded res \<Rightarrow> if \<not> ok res then Inl (http_error res) else json_body res)"

subsection \<open>\<^verbatim>\<open>localWallToZonedIso\<close>\<close>

text \<open>
  The arithmetic of the source is on the double \<^verbatim>\<open>offMin\<close>, held here as milliseconds
  (\<^verbatim>\<open>offMin\<close> is \<open>a / 60000\<close>). \<^verbatim>\<open>Math.floor(abs / 60)\<close> is the whole hours in \<open>a\<close>, for
  the offset of any zone. \<^verbatim>\<open>String(abs % 60)\<close> is a decimal numeral when \<open>a\<close> is whole
  minutes; otherwise it is the text of a double with a fraction, which the environment
  supplies.
\<close>

definition floor_hours :: "int \<Rightarrow> int" where
  "floor_hours a = a div msPerHour"

definition mod60_text :: "date_env \<Rightarrow> int \<Rightarrow> string" where
  "mod60_text env a =
     (if a mod msPerMinute = 0 then show_int ((a div msPerMinute) mod 60)
      else fraction_text env a)"

definition localWallToZonedIso :: "date_env \<Rightarrow> string \<Rightarrow> string" where
  "localWallToZonedIso env localWall =
     (let wall = (if length localWall = 16 then localWall @ '':00'' else localWall);
          d = Date_parse env wall;
          offMin = getTimezoneOffset env d;
          sign = (if (case offMin of None \<Rightarrow> False | Some m \<Rightarrow> m > 0) then ''-'' else ''+'');
          abs_off = map_option abs offMin;
          hh = padStart2 (show_num (map_option floor_hours abs_off));
          mm = padStart2 (case abs_off of None \<Rightarrow> ''NaN'' | Some a \<Rightarrow> mod60_text env a)
      in wall @ sign @ hh @ '':'' @ mm)"

subsection \<open>\<^verbatim>\<open>loadBookings\<close>\<close>

fun is_array :: "jsval \<Rightarrow> bool" where
  "is_array (JArr xs) = True"
| "is_array v = False"

text \<open>The array to show, picked out of the parsed response body.\<close>

definition items_of :: "jsval \<Rightarrow> jsval" where
  "items_of data =
     (if is_array data then data
      else (case data of
              JObj kvs \<Rightarrow>
                (let items = js_or (field data ''items'') (js_or (field data ''bookings'')
                               (js_or (field data ''rows'') (js_or (field data ''data'') (JArr []))))
                 in if \<not> truthy (field items ''length'')
                    then (case find is_array (map snd kvs) of
                            None \<Rightarrow> JArr []
                          | Some firstArray \<Rightarrow> js_or firstArray (JArr []))
                    else items)
            | _ \<Rightarrow> JArr []))"

text \<open>The body of the \<^verbatim>\<open>try\<close> block, up to the argument of \<^verbatim>\<open>setRows\<close>.\<close>

definition load_try :: "fetch_result \<Rightarrow> js_error + booking list" where
  "load_try fr =
     (case fr of
        Rejected e \<Rightarrow> Inl e
      | Responded res \<Rightarrow>
          if \<not> ok res then Inl (Thrown ''Error'' (''HTTP '' @ show_int (int (status res))))
          else (case json_body res of
                  Inl e \<Rightarrow> Inl e
                | Inr data \<Rightarrow>
                    (case items_of data of
                       JArr xs \<Rightarrow> normalize_from 0 xs
                     | _ \<Rightarrow> Inl (TypeError ''items.map is not a function''))))"

definition loadBookings :: "card \<Rightarrow> fetch_result \<Rightarrow> card" where
  "loadBookings s fr =
     (let s1 = s\<lparr> loading := True,
                  requests := requests s @
                    [\<lparr> req_method = ''GET'', req_path = ''/upcoming'', req_body = None \<rparr>] \<rparr>
      in (case load_try fr of
            Inr bs \<Rightarrow> s1\<lparr> rows := bs, loading := False \<rparr>
          | Inl e \<Rightarrow>
              s1\<lparr> console_errors := console_errors s1 @ [e],
                  alerts := alerts s1 @ [''Could not load bookings''],
                  rows := [],
                  loading := False \<rparr>))"

subsection \<open>\<^verbatim>\<open>handleAdd\<close>\<close>

definition toWall :: "date_env \<Rightarrow> int option \<Rightarrow> string" where
  "toWall env d =
     show_num (getFullYear env d) @ ''-''
     @ padStart2 (show_num (map_option (\<lambda>m. m + 1) (getMonth env d))) @ ''-''
     @ padStart2 (show_num (getDate env d)) @ ''T''
     @ padStart2 (show_num (getHours env d)) @ '':''
     @ padStart2 (show_num (getMinutes env d)) @ '':''
     @ padStart2 (show_num (getSeconds env d))"

text \<open>The object handed to \<^verbatim>\<open>JSON.stringify\<close>.\<close>

definition create_body :: "date_env \<Rightarrow> form_state \<Rightarrow> jsval" where
  "create_body env f =
     (let startWall = (if length (form_startsAt f) = 16 then form_startsAt f @ '':00''
                       else form_startsAt f);
          startDate = Date_parse env startWall;
          endDate = date_plus startDate (60 * 60 * 1000);
          startIso = localWallToZonedIso env startWall;
          endIso = localWallToZonedIso env (toWall env endDate)
      in JObj [(''start'', JStr startIso),
               (''end'', JStr endIso),
               (''name'', JStr (form_name f)),
               (''email'', js_or (JStr (form_email f)) JNull),
               (''phone'', js_or (JStr (form_phone f)) JNull),
               (''notes'', js_or (JStr (form_note f)) JNull)])"

text \<open>
  \<open>post_result\<close> is the answer to the POST, and \<open>load_result\<close> the answer to the GET of the
  reload that follows a successful POST.
\<close>

definition handleAdd :: "date_env \<Rightarrow> card \<Rightarrow> fetch_result \<Rightarrow> fetch_result \<Rightarrow> card" where
  "handleAdd env s post_result load_result =
     (if form_name (form s) = [] \<or> form_startsAt (form s) = []
      then s\<lparr> alerts := alerts s @ [''Name and time required''] \<rparr>
      else
        (let s1 = s\<lparr> adding := True,
                     requests := requests s @
                       [\<lparr> req_method = ''POST'', req_path = ''/book'',
                          req_body = Some (create_body env (form s)) \<rparr>] \<rparr>
         in (case apiJson post_result of
               Inl err \<Rightarrow>
                 s1\<lparr> alerts := alerts s1 @ [''Create failed: '' @ error_text err],
                     adding := False \<rparr>
             | Inr v \<Rightarrow> (loadBookings (s1\<lparr> form := empty_form \<rparr>) load_result)\<lparr> adding := False \<rparr>)))"

subsection \<open>\<^verbatim>\<open>completeBooking\<close> and \<^verbatim>\<open>deleteBooking\<close>\<close>

text \<open>
  Both are called from a button of row \<open>k\<close> with that row's id. \<^verbatim>\<open>b.id === id\<close> compares
  primitive ids by value; an id that is an object or an array equals only itself, and
  every row parsed from JSON has its own.
\<close>

fun is_primitive :: "jsval \<Rightarrow> bool" where
  "is_primitive (JArr xs) = False"
| "is_primitive (JObj kvs) = False"
| "is_primitive v = True"

definition same_id :: "booking list \<Rightarrow> nat \<Rightarrow> nat \<Rightarrow> bool" where
  "same_id bs k j =
     (if is_primitive (id_key (bs ! k)) then id_key (bs ! j) = id_key (bs ! k) else j = k)"

text \<open>
  The answer of a request sent for its status only, as both handlers use it: \<open>None\<close> when it
  went through.
\<close>

definition request_failure :: "fetch_result \<Rightarrow> js_error option" where
  "request_failure fr =
     (case fr of
        Rejected e \<Rightarrow> Some e
      | Responded res \<Rightarrow> if \<not> ok res then Some (http_error res) else None)"

text \<open>
  The text of the confirmation dialog is built from the id before the \<^verbatim>\<open>try\<close> block: when
  that conversion throws, the handler ends there. \<open>confirmed\<close> is the user's answer.
\<close>

definition completeBooking :: "card \<Rightarrow> nat \<Rightarrow> bool \<Rightarrow> fetch_result \<Rightarrow> card" where
  "completeBooking s k confirmed fr =
     (if k \<ge> length (rows s) then s
      else (case to_string (id_key (rows s ! k)) of
              Inl e \<Rightarrow> s
            | Inr id_text \<Rightarrow>
                if \<not> confirmed then s
                else
                  (let s1 = s\<lparr> requests := requests s @
                                 [\<lparr> req_method = ''POST'',
                                    req_path = ''/bookings/'' @ id_text @ ''/complete'',
                                    req_body = None \<rparr>] \<rparr>
                   in (case request_failure fr of
                         Some err \<Rightarrow>
                           s1\<lparr> alerts := alerts s1 @ [''Complete failed: '' @ error_text err] \<rparr>
                       | None \<Rightarrow>
                           s1\<lparr> rows := map (\<lambda>j. if same_id (rows s) k j
                                                then (rows s ! j)\<lparr> completed := True \<rparr>
                                                else rows s ! j)
                                          [0..<length (rows s)] \<rparr>))))"

definition deleteBooking :: "card \<Rightarrow> nat \<Rightarrow> bool \<Rightarrow> fetch_result \<Rightarrow> card" where
  "deleteBooking s k confirmed fr =
     (if k \<ge> length (rows s) then s
      else (case to_string (id_key (rows s ! k)) of
              Inl e \<Rightarrow> s
            | Inr id_text \<Rightarrow>
                if \<not> confirmed then s
                else
                  (let s1 = s\<lparr> requests := requests s @
                                 [\<lparr> req_method = ''DELETE'',
                                    req_path = ''/tenant/bookings/'' @ id_text,
                                    req_body = None \<rparr>] \<rparr>
                   in (case request_failure fr of
                         Some err \<Rightarrow>
                           s1\<lparr> alerts := alerts s1 @ [''Delete failed: '' @ error_text err] \<rparr>
                       | None \<Rightarrow>
                           s1\<lparr> rows := map (\<lambda>j. rows s ! j)
                                          (filter (\<lambda>j. \<not> same_id (rows s) k j)
                                             [0..<length (rows s)]) \<rparr>))))"

subsection \<open>Arrays in the store\<close>

text \<open>
  The render code copies, filters and sorts arrays, and \<^verbatim>\<open>Array.prototype.sort\<close> sorts
  the array it is called on in place. So arrays live in a store, addressed by their
  position in it, and a variable holds an address. An expression that builds an array
  allocates a new one; \<^verbatim>\<open>sort\<close> overwrites the one it is given. The outcome of an
  expression is the address of its array, or the exception it threw.
\<close>

type_synonym store = "booking list list"

definition deref :: "store \<Rightarrow> nat \<Rightarrow> booking list" where
  "deref h a = (if a < length h then h ! a else [])"

definition alloc :: "booking list \<Rightarrow> store \<Rightarrow> (js_error + nat) \<times> store" where
  "alloc xs h = (Inr (length h), h @ [xs])"

text \<open>\<^verbatim>\<open>[...a]\<close>\<close>

definition spread :: "nat \<Rightarrow> store \<Rightarrow> (js_error + nat) \<times> store" where
  "spread a h = alloc (deref h a) h"

text \<open>\<^verbatim>\<open>a.filter(p)\<close>, where the callback may throw.\<close>

fun filter_rows :: "(booking \<Rightarrow> js_error + bool) \<Rightarrow> booking list \<Rightarrow> js_error + booking list" where
  "filter_rows p [] = Inr []"
| "filter_rows p (b # bs) =
     (case p b of
        Inl e \<Rightarrow> Inl e
      | Inr keep \<Rightarrow>
          (case filter_rows p bs of
             Inl e \<Rightarrow> Inl e
           | Inr rest \<Rightarrow> Inr (if keep then b # rest else rest)))"

definition array_filter ::
  "(booking \<Rightarrow> js_error + bool) \<Rightarrow> nat \<Rightarrow> store \<Rightarrow> (js_error + nat) \<times> store" where
  "array_filter p a h =
     (case filter_rows p (deref h a) of Inl e \<Rightarrow> (Inl e, h) | Inr ys \<Rightarrow> alloc ys h)"

text \<open>
  \<^verbatim>\<open>a.sort(cmp)\<close>. The comparator returns a number, \<^verbatim>\<open>NaN\<close> counting as 0, or throws.
  Which comparisons an engine makes is its own affair. For a comparator that orders the
  elements consistently every engine returns the one stable order, which this insertion
  sort returns too. For any other comparator (the difference of two dates is \<^verbatim>\<open>NaN\<close>
  when one of them is invalid) ECMAScript leaves the order to the engine, which may
  return another permutation than this one; nothing below depends on which. The array
  is overwritten when the sort ends; a comparator that throws leaves it as it was.
\<close>

fun insert_row ::
  "(booking \<Rightarrow> booking \<Rightarrow> js_error + int option) \<Rightarrow> booking \<Rightarrow> booking list
     \<Rightarrow> js_error + booking list" where
  "insert_row cmp x [] = Inr [x]"
| "insert_row cmp x (y # ys) =
     (case cmp x y of
        Inl e \<Rightarrow> Inl e
      | Inr v \<Rightarrow>
          if (case v of None \<Rightarrow> False | Some n \<Rightarrow> n > 0)
          then (case insert_row cmp x ys of Inl e \<Rightarrow> Inl e | Inr zs \<Rightarrow> Inr (y # zs))
          else Inr (x # y # ys))"

fun sort_rows ::
  "(booking \<Rightarrow> booking \<Rightarrow> js_error + int option) \<Rightarrow> booking list \<Rightarrow> js_error + booking list" where
  "sort_rows cmp [] = Inr []"
| "sort_rows cmp (x # xs) =
     (case sort_rows cmp xs of Inl e \<Rightarrow> Inl e | Inr ys \<Rightarrow> insert_row cmp x ys)"

definition array_sort ::
  "(booking \<Rightarrow> booking \<Rightarrow> js_error + int option) \<Rightarrow> nat \<Rightarrow> store
     \<Rightarrow> (js_error + nat) \<times> store" where
  "array_sort cmp a h =
     (case sort_rows cmp (deref h a) of
        Inl e \<Rightarrow> (Inl e, h)
      | Inr ys \<Rightarrow> (Inr a, h[a := ys]))"

text \<open>What an expression evaluated to: the contents of its array, or the exception.\<close>

definition outcome :: "(js_error + nat) \<times> store \<Rightarrow> js_error + booking list" where
  "outcome res = (case fst res of Inl e \<Rightarrow> Inl e | Inr a \<Rightarrow> Inr (deref (snd res) a))"

subsection \<open>\<^verbatim>\<open>filterBySearch\<close>, \<^verbatim>\<open>filtered\<close> and \<^verbatim>\<open>sorted\<close>\<close>

text \<open>
  \<^verbatim>\<open>(v || "").toLowerCase().includes(q)\<close>: a field that holds a truthy value other than a
  string has no \<^verbatim>\<open>toLowerCase\<close> to call.
\<close>

definition field_includes :: "jsval \<Rightarrow> string \<Rightarrow> js_error + bool" where
  "field_includes v q =
     (case js_or v (JStr []) of
        JStr str \<Rightarrow> Inr (str_includes (toLowerCase str) q)
      | _ \<Rightarrow> Inl (TypeError ''toLowerCase is not a function''))"

text \<open>\<^verbatim>\<open>a || b\<close> where \<^verbatim>\<open>b\<close> is evaluated only when \<^verbatim>\<open>a\<close> is false.\<close>

definition or_else :: "js_error + bool \<Rightarrow> js_error + bool \<Rightarrow> js_error + bool" where
  "or_else a b = (case a of Inl e \<Rightarrow> Inl e | Inr x \<Rightarrow> if x then Inr True else b)"

definition row_matches :: "string \<Rightarrow> booking \<Rightarrow> js_error + bool" where
  "row_matches q r =
     or_else (field_includes (name r) q)
       (or_else (field_includes (phone r) q)
          (or_else (field_includes (email r) q) (field_includes (note_field r) q)))"

definition filterBySearch :: "nat \<Rightarrow> string \<Rightarrow> store \<Rightarrow> (js_error + nat) \<times> store" where
  "filterBySearch list term h =
     (let q = trim (toLowerCase (if term \<noteq> [] then term else []))
      in if q = [] then (Inr list, h) else array_filter (row_matches q) list h)"

text \<open>The callback of the \<^verbatim>\<open>hidePast\<close> filter; \<open>now\<close> is \<^verbatim>\<open>Date.now()\<close>.\<close>

definition not_past :: "date_env \<Rightarrow> int \<Rightarrow> booking \<Rightarrow> js_error + bool" where
  "not_past env now b =
     (case new_Date env (starts_at b) of
        Inl e \<Rightarrow> Inl e
      | Inr t \<Rightarrow> Inr (case t of None \<Rightarrow> False | Some ms \<Rightarrow> ms \<ge> now))"

text \<open>
  \<open>rows_ref\<close> is the address of the array in the state cell \<^verbatim>\<open>rows\<close>. An exception ends the
  evaluation with the store as it is at that point.
\<close>

definition filtered ::
  "date_env \<Rightarrow> int \<Rightarrow> card \<Rightarrow> nat \<Rightarrow> store \<Rightarrow> (js_error + nat) \<times> store" where
  "filtered env now s rows_ref h =
     (case spread rows_ref h of
        (Inl e, h0) \<Rightarrow> (Inl e, h0)
      | (Inr base0, h0) \<Rightarrow>
          (case filterBySearch base0 (search s) h0 of
             (Inl e, h1) \<Rightarrow> (Inl e, h1)
           | (Inr base1, h1) \<Rightarrow>
               (case (if hidePast s then array_filter (not_past env now) base1 h1
                      else (Inr base1, h1)) of
                  (Inl e, h2) \<Rightarrow> (Inl e, h2)
                | (Inr base2, h2) \<Rightarrow>
                    if showCompletedOnly s
                    then array_filter (\<lambda>b. Inr (completed b)) base2 h2
                    else if showIncompleteOnly s
                    then array_filter (\<lambda>b. Inr (\<not> completed b)) base2 h2
                    else (Inr base2, h2))))"

text \<open>\<^verbatim>\<open>new Date(x) - new Date(y)\<close>: the left date is built first; an invalid date gives
  \<^verbatim>\<open>NaN\<close>.\<close>

definition date_diff :: "date_env \<Rightarrow> jsval \<Rightarrow> jsval \<Rightarrow> js_error + int option" where
  "date_diff env x y =
     (case new_Date env x of
        Inl e \<Rightarrow> Inl e
      | Inr dx \<Rightarrow>
          (case new_Date env y of
             Inl e \<Rightarrow> Inl e
           | Inr dy \<Rightarrow>
               Inr (case dx of
                      None \<Rightarrow> None
                    | Some tx \<Rightarrow> (case dy of None \<Rightarrow> None | Some ty \<Rightarrow> Some (tx - ty)))))"

definition cmp_upcoming :: "date_env \<Rightarrow> booking \<Rightarrow> booking \<Rightarrow> js_error + int option" where
  "cmp_upcoming env a b = date_diff env (starts_at a) (starts_at b)"

definition cmp_created :: "date_env \<Rightarrow> booking \<Rightarrow> booking \<Rightarrow> js_error + int option" where
  "cmp_created env a b =
     date_diff env (js_or (created_at b) (starts_at b)) (js_or (created_at a) (starts_at a))"

text \<open>The \<^verbatim>\<open>sorted\<close> of the source: the list the table shows.\<close>

definition sorted_rows ::
  "date_env \<Rightarrow> int \<Rightarrow> card \<Rightarrow> nat \<Rightarrow> store \<Rightarrow> (js_error + nat) \<times> store" where
  "sorted_rows env now s rows_ref h =
     (case filtered env now s rows_ref h of
        (Inl e, h1) \<Rightarrow> (Inl e, h1)
      | (Inr flt, h1) \<Rightarrow>
          (case spread flt h1 of
             (Inl e, h2) \<Rightarrow> (Inl e, h2)
           | (Inr arr, h2) \<Rightarrow>
               if sortBy s = ''upcoming'' then array_sort (cmp_upcoming env) arr h2
               else if sortBy s = ''created'' then array_sort (cmp_created env) arr h2
               else (Inr arr, h2)))"

text \<open>One render: the store holds the array of the state cell and nothing else.\<close>

definition visible_rows :: "date_env \<Rightarrow> int \<Rightarrow> card \<Rightarrow> js_error + booking list" where
  "visible_rows env now s = outcome (sorted_rows env now s 0 [rows s])"

subsection \<open>Events\<close>

text \<open>
  What can happen to the card: the change handlers of the controls and of the form, the
  two sort buttons, and the four operations, each with the answers it gets from the
  network and from the user. \<open>Load\<close> is the effect that runs on mount and the Refresh
  button. An operation runs to its end before the next event is handled.
\<close>

datatype event =
    ChangeRange string
  | ChangeHidePast bool
  | ChangeCompletedOnly bool
  | ChangeIncompleteOnly bool
  | ClickSortUpcoming
  | ClickSortCreated
  | ChangeSearch string
  | ChangeForm form_state
  | Load fetch_result
  | ClickAdd fetch_result fetch_result
  | ClickComplete nat bool fetch_result
  | ClickDelete nat bool fetch_result

fun step :: "date_env \<Rightarrow> card \<Rightarrow> event \<Rightarrow> card" where
  "step env s (ChangeRange v) = s\<lparr> range_sel := v \<rparr>"
| "step env s (ChangeHidePast checked) = s\<lparr> hidePast := checked \<rparr>"
| "step env s (ChangeCompletedOnly checked) =
     (let s1 = s\<lparr> showCompletedOnly := checked \<rparr>
      in if checked then s1\<lparr> showIncompleteOnly := False \<rparr> else s1)"
| "step env s (ChangeIncompleteOnly checked) =
     (let s1 = s\<lparr> showIncompleteOnly := checked \<rparr>
      in if checked then s1\<lparr> showCompletedOnly := False \<rparr> else s1)"
| "step env s ClickSortUpcoming = s\<lparr> sortBy := ''upcoming'' \<rparr>"
| "step env s ClickSortCreated = s\<lparr> sortBy := ''created'' \<rparr>"
| "step env s (ChangeSearch v) = s\<lparr> search := v \<rparr>"
| "step env s (ChangeForm f) = s\<lparr> form := f \<rparr>"
| "step env s (Load fr) = loadBookings s fr"
| "step env s (ClickAdd post_result load_result) = handleAdd env s post_result load_result"
| "step env s (ClickComplete k confirmed fr) = completeBooking s k confirmed fr"
| "step env s (ClickDelete k confirmed fr) = deleteBooking s k confirmed fr"

inductive reachable :: "date_env \<Rightarrow> card \<Rightarrow> bool" for env :: date_env where
  reachable_initial: "reachable env initial_card"
| reachable_step: "reachable env s \<Longrightarrow> reachable env (step env s ev)"

subsection \<open>Predicates and sample data used in the statements\<close>

text \<open>A blank string: empty, or white space only.\<close>

definition blank :: "string \<Rightarrow> bool" where
  "blank str = list_all is_space str"

text \<open>
  A raw record supplies an id when one of the three id fields is neither \<^verbatim>\<open>null\<close> nor
  \<^verbatim>\<open>undefined\<close>, and a start time when one of the five start fields is truthy.
\<close>

definition supplies_id :: "jsval \<Rightarrow> bool" where
  "supplies_id r =
     (\<not> nullish (field r ''id'') \<or> \<not> nullish (field r ''booking_id'')
      \<or> \<not> nullish (field r ''pk''))"

definition supplies_start :: "jsval \<Rightarrow> bool" where
  "supplies_start r =
     (truthy (field r ''starts_at'') \<or> truthy (field r ''start'')
      \<or> truthy (field r ''starts_at_iso'') \<or> truthy (field r ''start_iso'')
      \<or> truthy (field r ''when''))"

text \<open>A raw record without an id, the row it becomes, and answers of the network.\<close>

definition jane_raw :: jsval where
  "jane_raw = JObj [(''name'', JStr ''Jane''), (''start'', JStr ''2024-06-01T10:00:00-04:00'')]"

definition jane_row :: booking where
  "jane_row =
     \<lparr> id_key = JStr ''Jane-2024-06-01T10:00:00-04:00'', name = JStr ''Jane'',
       email = JStr [], phone = JStr [], note_field = JStr [],
       starts_at = JStr ''2024-06-01T10:00:00-04:00'', created_at = JNull,
       completed = False, tenant_id = JNull \<rparr>"

definition fetch_failed :: fetch_result where
  "fetch_failed = Rejected (Thrown ''TypeError'' ''Failed to fetch'')"

definition answer_with :: "jsval \<Rightarrow> fetch_result" where
  "answer_with data = Responded \<lparr> status = 200, text_body = Inr [], json_body = Inr data \<rparr>"

definition bob_raw :: jsval where
  "bob_raw = JObj [(''name'', JStr ''Bob'')]"

definition bob_row :: "string \<Rightarrow> booking" where
  "bob_row key =
     \<lparr> id_key = JStr key, name = JStr ''Bob'', email = JStr [], phone = JStr [],
       note_field = JStr [], starts_at = JNull, created_at = JNull, completed = False,
       tenant_id = JNull \<rparr>"

text \<open>Three rows: one in June 2024, one in May 2024, one whose start time is no date.\<close>

definition may_row :: booking where
  "may_row =
     \<lparr> id_key = JNum 2, name = JStr ''Bob'', email = JStr [], phone = JStr [],
       note_field = JStr [], starts_at = JStr ''2024-05-01T10:00:00-04:00'',
       created_at = JNull, completed = True, tenant_id = JNull \<rparr>"

definition soon_row :: booking where
  "soon_row =
     \<lparr> id_key = JNum 3, name = JStr ''Cy'', email = JStr [], phone = JStr [],
       note_field = JStr [], starts_at = JStr ''soon'', created_at = JNull,
       completed = False, tenant_id = JNull \<rparr>"

definition sample_card :: card where
  "sample_card = initial_card\<lparr> rows := [jane_row, may_row, soon_row] \<rparr>"

text \<open>2024-05-15 00:00 UTC.\<close>

definition mid_may :: int where
  "mid_may = 1715731200000"

text \<open>A form filled in for 01:30 on the night daylight time ends in New York.\<close>

definition fall_back_form :: form_state where
  "fall_back_form = empty_form\<lparr> form_name := ''Jane'', form_startsAt := ''2024-11-03T01:30'' \<rparr>"

subsection \<open>The lists a render computes\<close>

text \<open>
  The contents of the arrays that \<open>filterBySearch\<close>, \<open>filtered\<close> and \<open>sorted_rows\<close> build,
  as functions of the contents of the array they start from. The proofs show that the
  store operations compute these lists.
\<close>

definition search_list :: "string \<Rightarrow> booking list \<Rightarrow> js_error + booking list" where
  "search_list term xs =
     (let q = trim (toLowerCase (if term \<noteq> [] then term else []))
      in if q = [] then Inr xs else filter_rows (row_matches q) xs)"

definition filtered_list ::
  "date_env \<Rightarrow> int \<Rightarrow> card \<Rightarrow> booking list \<Rightarrow> js_error + booking list" where
  "filtered_list env now s xs =
     (case search_list (search s) xs of
        Inl e \<Rightarrow> Inl e
      | Inr ys \<Rightarrow>
          (case (if hidePast s then filter_rows (not_past env now) ys else Inr ys) of
             Inl e \<Rightarrow> Inl e
           | Inr zs \<Rightarrow>
               if showCompletedOnly s then filter_rows (\<lambda>b. Inr (completed b)) zs
               else if showIncompleteOnly s then filter_rows (\<lambda>b. Inr (\<not> completed b)) zs
               else Inr zs))"

definition sorted_list ::
  "date_env \<Rightarrow> int \<Rightarrow> card \<Rightarrow> booking list \<Rightarrow> js_error + booking list" where
  "sorted_list env now s xs =
     (case filtered_list env now s xs of
        Inl e \<Rightarrow> Inl e
      | Inr ys \<Rightarrow>
          if sortBy s = ''upcoming'' then sort_rows (cmp_upcoming env) ys
          else if sortBy s = ''created'' then sort_rows (cmp_created env) ys
          else Inr ys)"

text \<open>
  \<open>computes res h v\<close>: an evaluation that started in the store \<open>h\<close> ended as \<open>res\<close>, having
  kept every array of \<open>h\<close> as it was, with the outcome \<open>v\<close>, its array (if any) in the store.
\<close>

definition computes ::
  "(js_error + nat) \<times> store \<Rightarrow> store \<Rightarrow> js_error + booking list \<Rightarrow> bool" where
  "computes res h v =
     (length h \<le> length (snd res)
      \<and> (\<forall>x<length h. deref (snd res) x = deref h x)
      \<and> outcome res = v
      \<and> (\<forall>a. fst res = Inr a \<longrightarrow> a < length (snd res)))"

section \<open>Properties\<close>

subsection \<open>The two completion filters exclude each other\<close>

lemma loadBookings_flags:
  "showCompletedOnly (loadBookings s fr) = showCompletedOnly s"
  "showIncompleteOnly (loadBookings s fr) = showIncompleteOnly s"
  by (simp_all add: loadBookings_def Let_def split: sum.splits)

lemma handleAdd_flags:
  "showCompletedOnly (handleAdd env s p l) = showCompletedOnly s"
  "showIncompleteOnly (handleAdd env s p l) = showIncompleteOnly s"
  by (simp_all add: handleAdd_def loadBookings_flags Let_def split: sum.splits)

lemma completeBooking_flags:
  "showCompletedOnly (completeBooking s k c fr) = showCompletedOnly s"
  "showIncompleteOnly (completeBooking s k c fr) = showIncompleteOnly s"
  by (simp_all add: completeBooking_def Let_def split: sum.splits option.splits)

lemma deleteBooking_flags:
  "showCompletedOnly (deleteBooking s k c fr) = showCompletedOnly s"
  "showIncompleteOnly (deleteBooking s k c fr) = showIncompleteOnly s"
  by (simp_all add: deleteBooking_def Let_def split: sum.splits option.splits)

lemma step_exclusive:
  assumes "\<not> (showCompletedOnly s \<and> showIncompleteOnly s)"
  shows "\<not> (showCompletedOnly (step env s ev) \<and> showIncompleteOnly (step env s ev))"
  using assms
  by (cases ev)
     (simp_all add: Let_def loadBookings_flags handleAdd_flags completeBooking_flags
        deleteBooking_flags)

text \<open>
  Claim C5. In every state the card can reach, \<open>showCompletedOnly\<close> and
  \<open>showIncompleteOnly\<close> are not both set; and from any state, ticking "Completed only" and
  then "Incomplete only" leaves \<open>showCompletedOnly\<close> cleared and \<open>showIncompleteOnly\<close> set.
\<close>

theorem completed_incomplete_exclusive:
  "(reachable env s \<longrightarrow> \<not> (showCompletedOnly s \<and> showIncompleteOnly s))
   \<and> \<not> showCompletedOnly
         (step env (step env s0 (ChangeCompletedOnly True)) (ChangeIncompleteOnly True))
   \<and> showIncompleteOnly
         (step env (step env s0 (ChangeCompletedOnly True)) (ChangeIncompleteOnly True))"
proof -
  have "\<not> (showCompletedOnly s \<and> showIncompleteOnly s)" if "reachable env s"
    using that
  proof (induction rule: reachable.induct)
    case reachable_initial
    show ?case by (simp add: initial_card_def)
  next
    case (reachable_step s ev)
    from reachable_step.IH show ?case by (rule step_exclusive)
  qed
  then show ?thesis by (simp add: Let_def)
qed

theorem completed_incomplete_exclusive_witness:
  "reachable new_york_2024 (step new_york_2024 initial_card (ChangeCompletedOnly True))
   \<and> showCompletedOnly (step new_york_2024 initial_card (ChangeCompletedOnly True))
   \<and> \<not> showIncompleteOnly (step new_york_2024 initial_card (ChangeCompletedOnly True))"
proof -
  have r: "reachable new_york_2024 (step new_york_2024 initial_card (ChangeCompletedOnly True))"
    by (rule reachable_step) (rule reachable_initial)
  show ?thesis
    using r completed_incomplete_exclusive
            [of new_york_2024 "step new_york_2024 initial_card (ChangeCompletedOnly True)"
                initial_card]
    by (simp add: initial_card_def Let_def)
qed

subsection \<open>Creating a booking: validation\<close>

text \<open>
  Claim C7. When the name or the start time of the form is empty, \<open>handleAdd\<close> raises the
  validation alert and does nothing else: no request is sent and every state cell keeps
  its value.
\<close>

theorem handleAdd_validation:
  assumes "form_name (form s) = [] \<or> form_startsAt (form s) = []"
  shows "handleAdd env s post_result load_result
           = s\<lparr> alerts := alerts s @ [''Name and time required''] \<rparr>
         \<and> requests (handleAdd env s post_result load_result) = requests s"
  using assms by (auto simp add: handleAdd_def)

theorem handleAdd_validation_witness:
  "form_name (form (initial_card\<lparr> form := empty_form\<lparr> form_startsAt := ''2024-06-01T10:00'' \<rparr> \<rparr>)) = []
   \<and> requests (handleAdd new_york_2024
        (initial_card\<lparr> form := empty_form\<lparr> form_startsAt := ''2024-06-01T10:00'' \<rparr> \<rparr>)
        fetch_failed fetch_failed) = []
   \<and> alerts (handleAdd new_york_2024
        (initial_card\<lparr> form := empty_form\<lparr> form_startsAt := ''2024-06-01T10:00'' \<rparr> \<rparr>)
        fetch_failed fetch_failed) = [''Name and time required'']"
  using handleAdd_validation
          [of "initial_card\<lparr> form := empty_form\<lparr> form_startsAt := ''2024-06-01T10:00'' \<rparr> \<rparr>"
              new_york_2024 fetch_failed fetch_failed]
  by (simp add: initial_card_def empty_form_def)

subsection \<open>Loading: what a failure leaves behind\<close>

text \<open>
  Claim C1, as amended. When the request of \<open>loadBookings\<close> is rejected or answered with a
  status outside 200 to 299, the list of rows is replaced by the empty list, whatever it
  held before; exactly one alert is raised and the loading flag is cleared.
\<close>

theorem loadBookings_failure:
  assumes "fr = Rejected e \<or> (fr = Responded res \<and> \<not> ok res)"
  shows "rows (loadBookings s fr) = []
         \<and> alerts (loadBookings s fr) = alerts s @ [''Could not load bookings'']
         \<and> \<not> loading (loadBookings s fr)"
  using assms by (auto simp add: loadBookings_def load_try_def Let_def)

theorem loadBookings_failure_witness:
  "fetch_failed = Rejected (Thrown ''TypeError'' ''Failed to fetch'')
   \<and> rows (loadBookings (initial_card\<lparr> rows := [jane_row] \<rparr>) fetch_failed) = []
   \<and> alerts (loadBookings (initial_card\<lparr> rows := [jane_row] \<rparr>) fetch_failed)
       = [''Could not load bookings'']"
  using loadBookings_failure
          [of fetch_failed "Thrown ''TypeError'' ''Failed to fetch''" undefined
              "initial_card\<lparr> rows := [jane_row] \<rparr>"]
  by (simp add: fetch_failed_def initial_card_def)

text \<open>
  The claim as stated, that a failed load leaves a populated list unchanged, fails on a
  list of one row.
\<close>

theorem loadBookings_failure_counterexample:
  "rows (loadBookings (initial_card\<lparr> rows := [jane_row] \<rparr>) fetch_failed)
     \<noteq> rows (initial_card\<lparr> rows := [jane_row] \<rparr>)"
  by (simp add: loadBookings_def load_try_def fetch_failed_def Let_def)

subsection \<open>\<^verbatim>\<open>localWallToZonedIso\<close> on a string that does not parse\<close>

text \<open>
  Claim C10. \<open>localWallToZonedIso\<close> returns a string for every input. When the input,
  padded with seconds if it has 16 characters, does not parse as a date, the result is
  that padded input followed by \<^verbatim>\<open>+NaN:NaN\<close>, which is no offset suffix.
\<close>

theorem localWallToZonedIso_unparseable:
  assumes "Date_parse env (if length w = 16 then w @ '':00'' else w) = None"
  shows "localWallToZonedIso env w = (if length w = 16 then w @ '':00'' else w) @ ''+NaN:NaN''
         \<and> parse_offset ''+NaN:NaN'' = None"
  using assms
  by (simp add: localWallToZonedIso_def Let_def getTimezoneOffset_def show_num_def
        padStart2_def parse_offset_def digit_val_def)

theorem localWallToZonedIso_unparseable_witness:
  "Date_parse new_york_2024
     (if length ''not a date'' = 16 then ''not a date'' @ '':00'' else ''not a date'') = None
   \<and> localWallToZonedIso new_york_2024 ''not a date'' = ''not a date+NaN:NaN''"
proof -
  have unparsed:
    "Date_parse new_york_2024
       (if length ''not a date'' = 16 then ''not a date'' @ '':00'' else ''not a date'') = None"
    by code_simp
  from localWallToZonedIso_unparseable [OF unparsed]
  have "localWallToZonedIso new_york_2024 ''not a date'' = ''not a date+NaN:NaN''"
    by simp
  with unparsed show ?thesis by simp
qed

subsection \<open>Decimal numerals\<close>

text \<open>Reading back what \<open>digits\<close> printed gives the number printed.\<close>

lemma digit_val_digit_char: "d < 10 \<Longrightarrow> digit_val (digit_char d) = Some (int d)"
proof -
  assume "d < 10"
  then have "d \<in> {0, 1, 2, 3, 4, 5, 6, 7, 8, 9}" by auto
  then show ?thesis
    by (auto simp add: digit_val_def digit_char_def)
qed

lemma num_of_snoc:
  "num_of acc (xs @ [c]) =
     (case num_of acc xs of
        None \<Rightarrow> None
      | Some v \<Rightarrow> (case digit_val c of None \<Rightarrow> None | Some d \<Rightarrow> Some (10 * v + d)))"
  by (induction xs arbitrary: acc) (auto split: option.splits)

lemma num_of_digits: "num_of 0 (digits n) = Some (int n)"
proof (induction n rule: digits.induct)
  case (1 n)
  show ?case
  proof (cases "n < 10")
    case True
    then show ?thesis
      by (subst digits.simps) (simp add: digit_val_digit_char)
  next
    case False
    with 1 have ih: "num_of 0 (digits (n div 10)) = Some (int (n div 10))" by simp
    have "n mod 10 < 10" by simp
    then have dv: "digit_val (digit_char (n mod 10)) = Some (int (n mod 10))"
      by (rule digit_val_digit_char)
    have "digits n = digits (n div 10) @ [digit_char (n mod 10)]"
      using False by (subst digits.simps) simp
    then show ?thesis
      using ih dv by (simp add: num_of_snoc zdiv_int zmod_int)
  qed
qed

lemma digits_inj: "digits m = digits n \<Longrightarrow> m = n"
proof -
  assume "digits m = digits n"
  then have "num_of 0 (digits m) = num_of 0 (digits n)" by simp
  then show "m = n" by (simp add: num_of_digits)
qed

lemma num_of_digit_chars:
  "num_of acc cs = Some v \<Longrightarrow> c \<in> set cs \<Longrightarrow> digit_val c \<noteq> None"
  by (induction cs arbitrary: acc) (auto split: option.splits)

lemma digits_digit_chars: "c \<in> set (digits n) \<Longrightarrow> digit_val c \<noteq> None"
  using num_of_digit_chars [OF num_of_digits] .

lemma digits_no_minus: "CHR ''-'' \<notin> set (digits n)"
proof
  assume "CHR ''-'' \<in> set (digits n)"
  then have "digit_val CHR ''-'' \<noteq> None" by (rule digits_digit_chars)
  then show False by (simp add: digit_val_def)
qed

lemma digits_nonempty: "digits n \<noteq> []"
  by (subst digits.simps) simp

lemma digits_two:
  "n < 100 \<Longrightarrow> padStart2 (digits n) = [digit_char (n div 10), digit_char (n mod 10)]"
proof (cases "n < 10")
  case True
  then show ?thesis
    by (subst digits.simps) (simp add: padStart2_def digit_char_def)
next
  case False
  assume "n < 100"
  then have "n div 10 < 10" by simp
  then have "digits (n div 10) = [digit_char (n div 10)]"
    by (subst digits.simps) simp
  then show ?thesis
    using False by (subst digits.simps) (simp add: padStart2_def)
qed

lemma num_of_two:
  assumes "0 \<le> k" "k < 100"
  shows "length (padStart2 (show_int k)) = 2"
    and "num_of 0 (padStart2 (show_int k)) = Some k"
proof -
  have n: "nat k < 100" using assms by simp
  have s: "show_int k = digits (nat k)" using assms by (simp add: show_int_def)
  have a: "nat k div 10 < 10" using n by simp
  have b: "nat k mod 10 < 10" by simp
  show "length (padStart2 (show_int k)) = 2"
    by (simp add: s digits_two [OF n])
  have "int (nat k div 10) * 10 + int (nat k mod 10) = k"
    using assms by (simp add: zdiv_int zmod_int)
  then show "num_of 0 (padStart2 (show_int k)) = Some k"
    by (simp add: s digits_two [OF n] digit_val_digit_char [OF a] digit_val_digit_char [OF b]
          mult.commute)
qed

subsection \<open>\<^verbatim>\<open>localWallToZonedIso\<close> on a string that parses\<close>

lemma whole_minutes_split:
  assumes "ms mod msPerMinute = 0"
  shows "floor_hours \<bar>ms\<bar> = \<bar>ms div msPerMinute\<bar> div 60"
    and "mod60_text env \<bar>ms\<bar> = show_int (\<bar>ms div msPerMinute\<bar> mod 60)"
    and "(ms > 0) = (ms div msPerMinute > 0)"
proof -
  define off where "off = ms div msPerMinute"
  from assms have ms: "ms = off * 60000"
    using div_mult_mod_eq [of ms 60000] by (simp add: off_def msPerMinute_def)
  have a: "\<bar>ms\<bar> = \<bar>off\<bar> * 60000"
    by (simp add: ms abs_mult)
  have "(\<bar>off\<bar> * 60000) div 3600000 = \<bar>off\<bar> div 60"
    by simp
  then show "floor_hours \<bar>ms\<bar> = \<bar>ms div msPerMinute\<bar> div 60"
    by (simp add: floor_hours_def msPerHour_def a off_def [symmetric])
  have off60: "ms div 60000 = off"
    by (simp add: off_def msPerMinute_def)
  show "mod60_text env \<bar>ms\<bar> = show_int (\<bar>ms div msPerMinute\<bar> mod 60)"
    by (simp add: mod60_text_def msPerMinute_def a off60)
  have "(off * 60000 > 0) = (off > 0)"
    by (simp add: zero_less_mult_iff)
  then show "(ms > 0) = (ms div msPerMinute > 0)"
    by (simp add: ms [symmetric] off_def [symmetric])
qed

text \<open>
  Claim C3, as amended. Let \<open>w\<close> be a wall-clock string that, padded with \<^verbatim>\<open>:00\<close> when it
  has 16 characters, parses to the instant \<open>t\<close>, on a machine whose offset from UTC at \<open>t\<close>
  is a whole number of minutes and less than 24 hours. Then \<open>localWallToZonedIso\<close> returns
  the padded string, character for character, followed by a well-formed suffix
  \<^verbatim>\<open>+HH:MM\<close> or \<^verbatim>\<open>-HH:MM\<close> that reads back as the offset of local time from UTC at \<open>t\<close>
  (the negation of \<^verbatim>\<open>getTimezoneOffset()\<close>).
\<close>

theorem localWallToZonedIso_offset:
  assumes parsed: "Date_parse env (if length w = 16 then w @ '':00'' else w) = Some t"
    and whole: "timezoneOffsetMs env t mod msPerMinute = 0"
    and zone: "\<bar>timezoneOffsetMs env t\<bar> < 24 * msPerHour"
  shows "take (length (if length w = 16 then w @ '':00'' else w)) (localWallToZonedIso env w)
           = (if length w = 16 then w @ '':00'' else w)
         \<and> parse_offset
             (drop (length (if length w = 16 then w @ '':00'' else w))
                (localWallToZonedIso env w))
           = Some (- (timezoneOffsetMs env t div msPerMinute))"
proof -
  define wall where "wall = (if length w = 16 then w @ '':00'' else w)"
  define ms where "ms = timezoneOffsetMs env t"
  define off where "off = ms div msPerMinute"
  define hh where "hh = padStart2 (show_int (\<bar>off\<bar> div 60))"
  define mm where "mm = padStart2 (show_int (\<bar>off\<bar> mod 60))"
  define sign where "sign = (if off > 0 then CHR ''-'' else CHR ''+'')"
  from whole have w0: "ms mod msPerMinute = 0" by (simp add: ms_def)
  note parts = whole_minutes_split [OF w0, folded off_def]
  have res: "localWallToZonedIso env w = wall @ sign # hh @ CHR '':'' # mm"
    using parsed
    by (simp add: localWallToZonedIso_def Let_def getTimezoneOffset_def show_num_def
          wall_def ms_def [symmetric] parts hh_def mm_def sign_def)
  from zone w0 have small: "\<bar>off\<bar> < 24 * 60"
    by (auto simp add: ms_def [symmetric] off_def msPerHour_def msPerMinute_def)
  have hr: "0 \<le> \<bar>off\<bar> div 60" "\<bar>off\<bar> div 60 < 100" "\<bar>off\<bar> div 60 \<le> 23"
    using small by simp_all
  have mr: "0 \<le> \<bar>off\<bar> mod 60" "\<bar>off\<bar> mod 60 < 100" "\<bar>off\<bar> mod 60 \<le> 59"
    by simp_all
  have lh: "length hh = 2" and nh: "num_of 0 hh = Some (\<bar>off\<bar> div 60)"
    unfolding hh_def using num_of_two [OF hr(1) hr(2)] by simp_all
  have lm: "length mm = 2" and nm: "num_of 0 mm = Some (\<bar>off\<bar> mod 60)"
    unfolding mm_def using num_of_two [OF mr(1) mr(2)] by simp_all
  have recombine: "60 * (\<bar>off\<bar> div 60) + \<bar>off\<bar> mod 60 = \<bar>off\<bar>" by simp
  have "parse_offset (sign # hh @ CHR '':'' # mm) = Some (- off)"
    using lh lm nh nm hr(3) mr(3) recombine
    by (simp add: parse_offset_def nth_append sign_def)
  then show ?thesis
    unfolding wall_def [symmetric] ms_def [symmetric] off_def [symmetric] by (simp add: res)
qed

theorem localWallToZonedIso_offset_witness:
  "Date_parse new_york_2024
     (if length ''2024-06-01T10:00'' = 16 then ''2024-06-01T10:00'' @ '':00''
      else ''2024-06-01T10:00'') = Some 1717250400000
   \<and> timezoneOffsetMs new_york_2024 1717250400000 mod msPerMinute = 0
   \<and> \<bar>timezoneOffsetMs new_york_2024 1717250400000\<bar> < 24 * msPerHour
   \<and> localWallToZonedIso new_york_2024 ''2024-06-01T10:00'' = ''2024-06-01T10:00:00-04:00''
   \<and> parse_offset (drop (length ''2024-06-01T10:00:00'')
                      (localWallToZonedIso new_york_2024 ''2024-06-01T10:00''))
       = Some (- 240)"
proof -
  have parsed:
    "Date_parse new_york_2024
       (if length ''2024-06-01T10:00'' = 16 then ''2024-06-01T10:00'' @ '':00''
        else ''2024-06-01T10:00'') = Some 1717250400000"
    by code_simp
  have whole: "timezoneOffsetMs new_york_2024 1717250400000 mod msPerMinute = 0"
    by code_simp
  have zone: "\<bar>timezoneOffsetMs new_york_2024 1717250400000\<bar> < 24 * msPerHour"
    by code_simp
  have off: "timezoneOffsetMs new_york_2024 1717250400000 div msPerMinute = 240"
    by code_simp
  have res: "localWallToZonedIso new_york_2024 ''2024-06-01T10:00'' = ''2024-06-01T10:00:00-04:00''"
    by code_simp
  from localWallToZonedIso_offset [OF parsed whole zone]
  have "parse_offset (drop (length ''2024-06-01T10:00:00'')
                        (localWallToZonedIso new_york_2024 ''2024-06-01T10:00''))
          = Some (- 240)"
    by (simp add: off)
  with parsed whole zone res show ?thesis by simp
qed

text \<open>
  The claim as stated, for every wall-clock string that parses, fails where the offset of
  the zone is not whole minutes. In New York the first minute of the year 1800 parses,
  the offset is 4 hours 56 minutes and 2 seconds, and the text after the seconds is
  \<^verbatim>\<open>-04:56.03333333333336\<close>, which is no offset suffix.
\<close>

theorem localWallToZonedIso_offset_counterexample:
  "Date_parse new_york_1800 ''1800-01-01T00:00:00'' = Some (- 5364644638000)
   \<and> timezoneOffsetMs new_york_1800 (- 5364644638000) = 17762000
   \<and> localWallToZonedIso new_york_1800 ''1800-01-01T00:00''
       = ''1800-01-01T00:00:00-04:56.03333333333336''
   \<and> parse_offset (drop 19 (localWallToZonedIso new_york_1800 ''1800-01-01T00:00'')) = None"
  by code_simp

subsection \<open>\<^verbatim>\<open>formatDateAny\<close> on strings\<close>

lemma minus_not_space: "\<not> is_space CHR ''-''"
  by (simp add: is_space_def)

text \<open>
  Claim C8. On a string that does not parse as a date, \<open>formatDateAny\<close> returns the string
  itself. On every string it returns (it does not throw), and what it returns for a string
  that is not blank is not blank.
\<close>

theorem formatDateAny_string:
  "(Date_parse env str = None \<longrightarrow> formatDateAny env (JStr str) = Inr str)
   \<and> (\<exists>out. formatDateAny env (JStr str) = Inr out \<and> (\<not> blank str \<longrightarrow> \<not> blank out))"
proof (cases "Date_parse env str")
  case None
  then have "formatDateAny env (JStr str) = Inr str"
    by (simp add: formatDateAny_def formatDateAny_try_def)
  with None show ?thesis by simp
next
  case (Some t)
  show ?thesis
  proof (cases "str = []")
    case True
    then show ?thesis
      by (simp add: Some formatDateAny_def blank_def)
  next
    case False
    show ?thesis
    proof (cases "formatToParts env t")
      case None
      then have "formatDateAny env (JStr str) = Inr str"
        using Some False by (simp add: formatDateAny_def formatDateAny_try_def)
      with Some show ?thesis by simp
    next
      case (Some parts)
      define vars where "vars = foldl assign_part no_parts parts"
      define out where
        "out = template_var (month vars) @ ''-'' @ template_var (day vars) @ '' ''
               @ template_var (hour vars) @ '':'' @ template_var (minute vars)
               @ template_var (dayPeriod vars)"
      have "formatDateAny env (JStr str) = Inr out"
        using Some \<open>Date_parse env str = Some t\<close> False
        by (simp add: formatDateAny_def formatDateAny_try_def Let_def vars_def out_def)
      moreover have "CHR ''-'' \<in> set out" by (simp add: out_def)
      then have "\<not> blank out"
        using minus_not_space by (auto simp add: blank_def list_all_iff)
      ultimately show ?thesis
        using \<open>Date_parse env str = Some t\<close> by simp
    qed
  qed
qed

theorem formatDateAny_string_witness:
  "Date_parse new_york_2024 ''next tuesday'' = None
   \<and> \<not> blank ''next tuesday''
   \<and> formatDateAny new_york_2024 (JStr ''next tuesday'') = Inr ''next tuesday''"
proof -
  have unparsed: "Date_parse new_york_2024 ''next tuesday'' = None" by code_simp
  have filled: "\<not> blank ''next tuesday''" by code_simp
  from formatDateAny_string [of new_york_2024 "''next tuesday''"] unparsed
  have "formatDateAny new_york_2024 (JStr ''next tuesday'') = Inr ''next tuesday''" by simp
  with unparsed filled show ?thesis by simp
qed

lemma formatDateAny_sample:
  "formatDateAny new_york_2024 (JStr ''2024-03-14T14:05'') = Inr ''3-14 2:05pm''"
  by code_simp

subsection \<open>The ids of normalized rows\<close>

lemma normalize_from_nth:
  "normalize_from k items = Inr bs \<Longrightarrow>
     length bs = length items \<and> (\<forall>i<length items. normalizeRow (items ! i) (k + i) = Inr (bs ! i))"
proof (induction items arbitrary: k bs)
  case Nil
  then show ?case by simp
next
  case (Cons r rs)
  from Cons.prems obtain b bs' where
    b: "normalizeRow r k = Inr b" and rest: "normalize_from (Suc k) rs = Inr bs'"
    and bs: "bs = b # bs'"
    by (auto split: sum.splits)
  from Cons.IH [OF rest] have
    len: "length bs' = length rs"
    and nth: "\<forall>i<length rs. normalizeRow (rs ! i) (Suc k + i) = Inr (bs' ! i)"
    by simp_all
  show ?case
  proof (intro conjI allI impI)
    show "length bs = length (r # rs)" by (simp add: bs len)
  next
    fix i assume "i < length (r # rs)"
    then show "normalizeRow ((r # rs) ! i) (k + i) = Inr (bs ! i)"
      using b nth by (cases i) (simp_all add: bs)
  qed
qed

lemma normalizeRow_id:
  assumes "normalizeRow r i = Inr b"
  shows "id_of r (starts_at b) i = Inr (id_key b)"
    and "\<not> supplies_start r \<Longrightarrow> starts_at b = JNull"
  using assms
  by (auto simp add: normalizeRow_def Let_def supplies_start_def js_or_def
        split: sum.splits)

lemma id_of_not_nullish: "id_of r st i = Inr v \<Longrightarrow> \<not> nullish v"
  by (auto simp add: id_of_def split: if_splits sum.splits)

lemma id_of_synthesized:
  assumes "\<not> supplies_id r" and "id_of r st i = Inr v"
  shows "\<exists>n t. to_string (js_or (field r ''name'') (JStr ''row'')) = Inr n
               \<and> to_string (js_or st (JNum (int i))) = Inr t
               \<and> v = JStr (n @ ''-'' @ t)"
  using assms
  by (auto simp add: id_of_def supplies_id_def split: if_splits sum.splits)

lemma last_dash_splits:
  assumes "CHR ''-'' \<notin> set u" and "CHR ''-'' \<notin> set v"
    and "a @ ''-'' @ u = b @ ''-'' @ v"
  shows "u = v"
proof -
  have cut: "takeWhile (\<lambda>c. c \<noteq> CHR ''-'') (rev (x @ ''-'' @ y)) = rev y"
    if "CHR ''-'' \<notin> set y" for x y :: string
  proof -
    have "takeWhile (\<lambda>c. c \<noteq> CHR ''-'') (rev y @ CHR ''-'' # rev x)
            = rev y @ takeWhile (\<lambda>c. c \<noteq> CHR ''-'') (CHR ''-'' # rev x)"
      by (rule takeWhile_append2) (use that in auto)
    then show ?thesis by simp
  qed
  have "rev u = takeWhile (\<lambda>c. c \<noteq> CHR ''-'') (rev (a @ ''-'' @ u))"
    using cut [OF assms(1)] by simp
  also have "\<dots> = takeWhile (\<lambda>c. c \<noteq> CHR ''-'') (rev (b @ ''-'' @ v))"
    using assms(3) by simp
  also have "\<dots> = rev v"
    using cut [OF assms(2)] by simp
  finally show ?thesis by simp
qed

text \<open>
  Claim C2, as amended. When \<open>items.map(normalizeRow)\<close> returns, every row has an id that is
  neither \<^verbatim>\<open>null\<close> nor \<^verbatim>\<open>undefined\<close>. The id of a row whose record supplies no id is the
  string made of the record's name, or \<^verbatim>\<open>row\<close> when the name is falsy, then \<^verbatim>\<open>-\<close>, then the
  start time of the row, or its index when the start time is falsy; that string is not
  empty. Two rows at different positions whose records supply neither an id nor a start
  time have different ids.
\<close>

theorem normalized_ids:
  assumes "normalize_from 0 items = Inr bs"
  shows "(\<forall>b\<in>set bs. \<not> nullish (id_key b))
         \<and> (\<forall>i<length items. \<not> supplies_id (items ! i)
               \<longrightarrow> (\<exists>n t. to_string (js_or (field (items ! i) ''name'') (JStr ''row'')) = Inr n
                          \<and> to_string (js_or (starts_at (bs ! i)) (JNum (int i))) = Inr t
                          \<and> id_key (bs ! i) = JStr (n @ ''-'' @ t)
                          \<and> n @ ''-'' @ t \<noteq> []))
         \<and> (\<forall>i<length items. \<forall>j<length items.
               i \<noteq> j \<and> \<not> supplies_id (items ! i) \<and> \<not> supplies_id (items ! j)
               \<and> \<not> supplies_start (items ! i) \<and> \<not> supplies_start (items ! j)
               \<longrightarrow> id_key (bs ! i) \<noteq> id_key (bs ! j))"
proof -
  from normalize_from_nth [OF assms] have
    len: "length bs = length items"
    and nth: "\<And>i. i < length items \<Longrightarrow> normalizeRow (items ! i) i = Inr (bs ! i)"
    by simp_all
  have made: "id_of (items ! i) (starts_at (bs ! i)) i = Inr (id_key (bs ! i))"
    if "i < length items" for i
    using normalizeRow_id(1) [OF nth [OF that]] .
  have undated: "starts_at (bs ! i) = JNull"
    if "i < length items" and "\<not> supplies_start (items ! i)" for i
    using normalizeRow_id(2) [OF nth [OF that(1)] that(2)] .
  have first: "\<forall>b\<in>set bs. \<not> nullish (id_key b)"
  proof
    fix b assume "b \<in> set bs"
    then obtain i where "i < length items" and "b = bs ! i"
      by (auto simp add: in_set_conv_nth len)
    with made [of i] show "\<not> nullish (id_key b)"
      by (auto dest: id_of_not_nullish)
  qed
  have second:
    "\<exists>n t. to_string (js_or (field (items ! i) ''name'') (JStr ''row'')) = Inr n
           \<and> to_string (js_or (starts_at (bs ! i)) (JNum (int i))) = Inr t
           \<and> id_key (bs ! i) = JStr (n @ ''-'' @ t)
           \<and> n @ ''-'' @ t \<noteq> []"
    if "i < length items" and "\<not> supplies_id (items ! i)" for i
    using id_of_synthesized [OF that(2) made [OF that(1)]] by auto
  have by_index: "\<exists>n. id_key (bs ! i) = JStr (n @ ''-'' @ digits i)"
    if "i < length items" and "\<not> supplies_id (items ! i)" and "\<not> supplies_start (items ! i)"
    for i
  proof -
    from made [OF that(1)] undated [OF that(1) that(3)]
    have "id_of (items ! i) JNull i = Inr (id_key (bs ! i))"
      by simp
    from id_of_synthesized [OF that(2) this] show ?thesis
      by (auto simp add: js_or_def show_int_def)
  qed
  have third: "id_key (bs ! i) \<noteq> id_key (bs ! j)"
    if "i < length items" "j < length items" "i \<noteq> j"
      "\<not> supplies_id (items ! i)" "\<not> supplies_id (items ! j)"
      "\<not> supplies_start (items ! i)" "\<not> supplies_start (items ! j)" for i j
  proof
    assume same: "id_key (bs ! i) = id_key (bs ! j)"
    from by_index [OF that(1) that(4) that(6)] obtain n
      where n: "id_key (bs ! i) = JStr (n @ ''-'' @ digits i)" by blast
    from by_index [OF that(2) that(5) that(7)] obtain m
      where m: "id_key (bs ! j) = JStr (m @ ''-'' @ digits j)" by blast
    from same n m have "n @ ''-'' @ digits i = m @ ''-'' @ digits j" by simp
    from last_dash_splits [OF digits_no_minus digits_no_minus this]
    have "i = j" by (rule digits_inj)
    with that(3) show False by simp
  qed
  from first second third show ?thesis by blast
qed

theorem normalized_ids_witness:
  "normalize_from 0 [bob_raw, bob_raw] = Inr [bob_row ''Bob-0'', bob_row ''Bob-1'']
   \<and> \<not> supplies_id bob_raw \<and> \<not> supplies_start bob_raw
   \<and> id_key ([bob_row ''Bob-0'', bob_row ''Bob-1''] ! 0)
       \<noteq> id_key ([bob_row ''Bob-0'', bob_row ''Bob-1''] ! 1)"
proof -
  have rows_made: "normalize_from 0 [bob_raw, bob_raw] = Inr [bob_row ''Bob-0'', bob_row ''Bob-1'']"
    by code_simp
  have no_id: "\<not> supplies_id bob_raw" by code_simp
  have no_start: "\<not> supplies_start bob_raw" by code_simp
  from normalized_ids [OF rows_made, THEN conjunct2, THEN conjunct2, rule_format, of 0 1]
    no_id no_start
  have "id_key ([bob_row ''Bob-0'', bob_row ''Bob-1''] ! 0)
          \<noteq> id_key ([bob_row ''Bob-0'', bob_row ''Bob-1''] ! 1)"
    by simp
  with rows_made no_id no_start show ?thesis by simp
qed

text \<open>
  The claim as stated fails twice: two records without an id that share name and start
  time get the same id, and an id that the record supplies as the empty string stays
  empty.
\<close>

theorem normalized_ids_counterexample:
  "normalize_from 0 [jane_raw, jane_raw] = Inr [jane_row, jane_row]
   \<and> \<not> distinct (map id_key [jane_row, jane_row])
   \<and> map_sum id (map id_key) (normalize_from 0 [JObj [(''id'', JStr []), (''name'', JStr ''Ann'')]])
       = Inr [JStr []]"
  by code_simp

subsection \<open>What the store operations compute\<close>

lemma deref_snoc: "deref (h @ [xs]) a = (if a = length h then xs else deref h a)"
  by (simp add: deref_def nth_append)

lemma computes_alloc: "computes (alloc xs h) h (Inr xs)"
  by (simp add: computes_def alloc_def outcome_def deref_snoc)

lemma computes_spread: "computes (spread a h) h (Inr (deref h a))"
  by (simp add: spread_def computes_alloc)

lemma computes_error: "computes (Inl e, h) h (Inl e)"
  by (simp add: computes_def outcome_def)

lemma computes_same: "a < length h \<Longrightarrow> computes (Inr a, h) h (Inr (deref h a))"
  by (simp add: computes_def outcome_def)

lemma computes_array_filter: "computes (array_filter p a h) h (filter_rows p (deref h a))"
  by (cases "filter_rows p (deref h a)")
     (simp_all add: array_filter_def computes_error computes_alloc)

lemma computes_filterBySearch:
  "a < length h \<Longrightarrow> computes (filterBySearch a term h) h (search_list term (deref h a))"
  by (simp add: filterBySearch_def search_list_def Let_def computes_same computes_array_filter)

text \<open>An evaluation continued by another one.\<close>

lemma computes_then:
  assumes first: "computes res h v"
    and failed: "\<And>e. v = Inl e \<Longrightarrow> w = Inl e"
    and rest: "\<And>a. fst res = Inr a \<Longrightarrow> a < length (snd res) \<Longrightarrow> v = Inr (deref (snd res) a)
                 \<Longrightarrow> computes (f a (snd res)) (snd res) w"
  shows "computes (case res of (Inl e, h1) \<Rightarrow> (Inl e, h1) | (Inr a, h1) \<Rightarrow> f a h1) h w"
proof (cases res)
  case (Pair r h1)
  show ?thesis
  proof (cases r)
    case (Inl e)
    with Pair first have "v = Inl e" by (simp add: computes_def outcome_def)
    with failed have "w = Inl e" by simp
    with Pair Inl first show ?thesis by (simp add: computes_def outcome_def)
  next
    case (Inr a)
    with Pair first have a: "a < length h1" and v: "v = Inr (deref h1 a)"
      by (auto simp add: computes_def outcome_def)
    from rest [of a] Pair Inr a v have "computes (f a h1) h1 w" by simp
    with first Pair Inr show ?thesis
      by (auto simp add: computes_def)
  qed
qed

lemma computes_filtered:
  assumes "a < length h"
  shows "computes (filtered env now s a h) h (filtered_list env now s (deref h a))"
  unfolding filtered_def
proof (rule computes_then [OF computes_spread])
  fix e :: js_error assume "Inr (deref h a) = Inl e"
  then show "filtered_list env now s (deref h a) = Inl e" by simp
next
  fix b0
  assume b0: "b0 < length (snd (spread a h))"
    and c0: "Inr (deref h a) = Inr (deref (snd (spread a h)) b0)"
  define h0 where "h0 = snd (spread a h)"
  show "computes
          (case filterBySearch b0 (search s) (snd (spread a h)) of
             (Inl e, h1) \<Rightarrow> (Inl e, h1)
           | (Inr base1, h1) \<Rightarrow>
               (case (if hidePast s then array_filter (not_past env now) base1 h1
                      else (Inr base1, h1)) of
                  (Inl e, h2) \<Rightarrow> (Inl e, h2)
                | (Inr base2, h2) \<Rightarrow>
                    if showCompletedOnly s
                    then array_filter (\<lambda>b. Inr (completed b)) base2 h2
                    else if showIncompleteOnly s
                    then array_filter (\<lambda>b. Inr (\<not> completed b)) base2 h2
                    else (Inr base2, h2)))
          (snd (spread a h)) (filtered_list env now s (deref h a))"
  proof (rule computes_then [OF computes_filterBySearch [OF b0]])
    fix e :: js_error assume "search_list (search s) (deref (snd (spread a h)) b0) = Inl e"
    with c0 show "filtered_list env now s (deref h a) = Inl e"
      by (simp add: filtered_list_def)
  next
    fix b1
    let ?h1 = "snd (filterBySearch b0 (search s) (snd (spread a h)))"
    assume b1: "b1 < length ?h1"
      and c1: "search_list (search s) (deref (snd (spread a h)) b0) = Inr (deref ?h1 b1)"
    have hp: "computes
                (if hidePast s then array_filter (not_past env now) b1 ?h1 else (Inr b1, ?h1))
                ?h1
                (if hidePast s then filter_rows (not_past env now) (deref ?h1 b1)
                 else Inr (deref ?h1 b1))"
      using b1 by (simp add: computes_array_filter computes_same)
    show "computes
            (case (if hidePast s then array_filter (not_past env now) b1 ?h1
                   else (Inr b1, ?h1)) of
               (Inl e, h2) \<Rightarrow> (Inl e, h2)
             | (Inr base2, h2) \<Rightarrow>
                 if showCompletedOnly s
                 then array_filter (\<lambda>b. Inr (completed b)) base2 h2
                 else if showIncompleteOnly s
                 then array_filter (\<lambda>b. Inr (\<not> completed b)) base2 h2
                 else (Inr base2, h2))
            ?h1 (filtered_list env now s (deref h a))"
    proof (rule computes_then [OF hp])
      fix e :: js_error
      assume "(if hidePast s then filter_rows (not_past env now) (deref ?h1 b1)
               else Inr (deref ?h1 b1)) = Inl e"
      with c0 c1 show "filtered_list env now s (deref h a) = Inl e"
        by (simp add: filtered_list_def)
    next
      fix b2
      let ?h2 = "snd (if hidePast s then array_filter (not_past env now) b1 ?h1
                      else (Inr b1, ?h1))"
      assume b2: "b2 < length ?h2"
        and c2: "(if hidePast s then filter_rows (not_past env now) (deref ?h1 b1)
                  else Inr (deref ?h1 b1)) = Inr (deref ?h2 b2)"
      from c0 c1 c2 have
        "filtered_list env now s (deref h a) =
           (if showCompletedOnly s then filter_rows (\<lambda>b. Inr (completed b)) (deref ?h2 b2)
            else if showIncompleteOnly s
            then filter_rows (\<lambda>b. Inr (\<not> completed b)) (deref ?h2 b2)
            else Inr (deref ?h2 b2))"
        by (simp add: filtered_list_def)
      then show "computes
              (if showCompletedOnly s
               then array_filter (\<lambda>b. Inr (completed b)) b2 ?h2
               else if showIncompleteOnly s
               then array_filter (\<lambda>b. Inr (\<not> completed b)) b2 ?h2
               else (Inr b2, ?h2))
              ?h2 (filtered_list env now s (deref h a))"
        using b2 by (simp add: computes_array_filter computes_same)
    qed
  qed
qed


lemma computes_sort_new: "computes (array_sort cmp (length h) (h @ [xs])) h (sort_rows cmp xs)"
  by (cases "sort_rows cmp xs")
     (simp_all add: array_sort_def computes_def outcome_def deref_def nth_append)

lemma computes_sorted_rows:
  assumes "a < length h"
  shows "computes (sorted_rows env now s a h) h (sorted_list env now s (deref h a))"
  unfolding sorted_rows_def
proof (rule computes_then [OF computes_filtered [OF assms]])
  fix e :: js_error assume "filtered_list env now s (deref h a) = Inl e"
  then show "sorted_list env now s (deref h a) = Inl e"
    by (simp add: sorted_list_def)
next
  fix flt
  let ?h1 = "snd (filtered env now s a h)"
  assume c: "filtered_list env now s (deref h a) = Inr (deref ?h1 flt)"
  have "computes
          (if sortBy s = ''upcoming''
           then array_sort (cmp_upcoming env) (length ?h1) (?h1 @ [deref ?h1 flt])
           else if sortBy s = ''created''
           then array_sort (cmp_created env) (length ?h1) (?h1 @ [deref ?h1 flt])
           else (Inr (length ?h1), ?h1 @ [deref ?h1 flt]))
          ?h1 (sorted_list env now s (deref h a))"
    using computes_alloc [of "deref ?h1 flt" ?h1]
    by (simp add: sorted_list_def c computes_sort_new alloc_def)
  then show "computes
          (case spread flt ?h1 of
             (Inl e, h2) \<Rightarrow> (Inl e, h2)
           | (Inr arr, h2) \<Rightarrow>
               if sortBy s = ''upcoming'' then array_sort (cmp_upcoming env) arr h2
               else if sortBy s = ''created'' then array_sort (cmp_created env) arr h2
               else (Inr arr, h2))
          ?h1 (sorted_list env now s (deref h a))"
    by (simp add: spread_def alloc_def)
qed

text \<open>
  Claim C9. Computing the visible list leaves every array that existed before as it was,
  the array of the state cell among them, and computing it again, from the store the
  first computation left, with the same state and the same current instant, has the
  same outcome: the same list, or the same exception.
\<close>

theorem sorted_rows_pure:
  assumes "a < length h"
  shows "(\<forall>x<length h. deref (snd (sorted_rows env now s a h)) x = deref h x)
         \<and> outcome (sorted_rows env now s a (snd (sorted_rows env now s a h)))
             = outcome (sorted_rows env now s a h)
         \<and> (\<forall>x<length h.
               deref (snd (sorted_rows env now s a (snd (sorted_rows env now s a h)))) x
                 = deref h x)"
proof -
  let ?h1 = "snd (sorted_rows env now s a h)"
  from computes_sorted_rows [OF assms, of env now s] have
    longer: "length h \<le> length ?h1"
    and kept: "\<forall>x<length h. deref ?h1 x = deref h x"
    and out1: "outcome (sorted_rows env now s a h) = sorted_list env now s (deref h a)"
    by (simp_all add: computes_def)
  from assms longer have a1: "a < length ?h1" by simp
  from kept assms have same: "deref ?h1 a = deref h a" by simp
  from computes_sorted_rows [OF a1, of env now s] have
    kept2: "\<forall>x<length ?h1. deref (snd (sorted_rows env now s a ?h1)) x = deref ?h1 x"
    and out2: "outcome (sorted_rows env now s a ?h1) = sorted_list env now s (deref ?h1 a)"
    by (simp_all add: computes_def)
  from kept kept2 longer have
    "\<forall>x<length h. deref (snd (sorted_rows env now s a ?h1)) x = deref h x"
    by auto
  with kept out1 out2 same show ?thesis by simp
qed

theorem sorted_rows_pure_witness:
  "0 < length [rows sample_card]
   \<and> deref (snd (sorted_rows new_york_2024 mid_may (sample_card\<lparr> hidePast := False \<rparr>) 0
                   [rows sample_card])) 0 = [jane_row, may_row, soon_row]
   \<and> outcome (sorted_rows new_york_2024 mid_may (sample_card\<lparr> hidePast := False \<rparr>) 0
                (snd (sorted_rows new_york_2024 mid_may (sample_card\<lparr> hidePast := False \<rparr>) 0
                        [rows sample_card])))
       = Inr [may_row, jane_row, soon_row]"
proof -
  have one: "0 < length [rows sample_card]" by simp
  have first: "outcome (sorted_rows new_york_2024 mid_may (sample_card\<lparr> hidePast := False \<rparr>) 0
                          [rows sample_card]) = Inr [may_row, jane_row, soon_row]"
    by code_simp
  have cell: "deref [rows sample_card] 0 = [jane_row, may_row, soon_row]"
    by code_simp
  from sorted_rows_pure [OF one, of new_york_2024 mid_may "sample_card\<lparr> hidePast := False \<rparr>"]
    first cell
  show ?thesis by simp
qed

subsection \<open>Hiding past bookings\<close>

lemma filter_rows_set:
  "filter_rows p xs = Inr ys \<Longrightarrow> set ys \<subseteq> set xs \<and> (\<forall>y\<in>set ys. p y = Inr True)"
proof (induction xs arbitrary: ys)
  case Nil
  then show ?case by simp
next
  case (Cons b bs)
  from Cons.prems obtain keep rest where
    k: "p b = Inr keep" and r: "filter_rows p bs = Inr rest"
    and ys: "ys = (if keep then b # rest else rest)"
    by (simp split: sum.splits)
  from Cons.IH [OF r] have "set rest \<subseteq> set bs" and "\<forall>y\<in>set rest. p y = Inr True"
    by simp_all
  with k ys show ?case by auto
qed

lemma insert_row_set: "insert_row cmp x ys = Inr zs \<Longrightarrow> set zs = insert x (set ys)"
proof (induction ys arbitrary: zs)
  case Nil
  then show ?case by auto
next
  case (Cons y ys)
  from Cons.prems obtain v where v: "cmp x y = Inr v"
    by (simp split: sum.splits)
  show ?case
  proof (cases "case v of None \<Rightarrow> False | Some n \<Rightarrow> n > 0")
    case True
    with Cons.prems v obtain ws where
      w: "insert_row cmp x ys = Inr ws" and zs: "zs = y # ws"
      by (simp split: sum.splits)
    from Cons.IH [OF w] zs show ?thesis by auto
  next
    case False
    with Cons.prems v have "zs = x # y # ys" by simp
    then show ?thesis by auto
  qed
qed

lemma sort_rows_set: "sort_rows cmp xs = Inr ys \<Longrightarrow> set ys = set xs"
proof (induction xs arbitrary: ys)
  case Nil
  then show ?case by simp
next
  case (Cons x xs)
  from Cons.prems obtain ws where
    w: "sort_rows cmp xs = Inr ws" and i: "insert_row cmp x ws = Inr ys"
    by (simp split: sum.splits)
  from Cons.IH [OF w] insert_row_set [OF i] show ?case by simp
qed

lemma search_list_set: "search_list term xs = Inr ys \<Longrightarrow> set ys \<subseteq> set xs"
proof -
  assume a: "search_list term xs = Inr ys"
  show ?thesis
  proof (cases "trim (toLowerCase (if term \<noteq> [] then term else [])) = []")
    case True
    with a show ?thesis by (simp add: search_list_def Let_def)
  next
    case False
    with a have
      "filter_rows (row_matches (trim (toLowerCase (if term \<noteq> [] then term else [])))) xs
         = Inr ys"
      by (simp add: search_list_def Let_def)
    from filter_rows_set [OF this] show ?thesis by simp
  qed
qed

lemma filtered_list_hidePast:
  assumes "hidePast s" and "filtered_list env now s xs = Inr ys" and "b \<in> set ys"
  shows "b \<in> set xs \<and> not_past env now b = Inr True"
proof -
  from assms(1,2) obtain us vs where
    u: "search_list (search s) xs = Inr us"
    and v: "filter_rows (not_past env now) us = Inr vs"
    and y: "set ys \<subseteq> set vs"
    by (auto simp add: filtered_list_def split: sum.splits if_splits dest: filter_rows_set)
  from assms(3) y have "b \<in> set vs" by auto
  with filter_rows_set [OF v] search_list_set [OF u] show ?thesis by auto
qed

lemma visible_rows_list: "visible_rows env now s = sorted_list env now s (rows s)"
  using computes_sorted_rows [of 0 "[rows s]" env now s]
  by (simp add: visible_rows_def computes_def deref_def)

text \<open>
  Claim C4. With \<open>hidePast\<close> set, every row of the visible list computed at the instant
  \<open>T\<close> is a row of the state cell whose start time is a valid date not before \<open>T\<close>: a row
  whose start time is before \<open>T\<close>, or is no valid date, is not shown.
\<close>

theorem hidePast_drops_past:
  assumes "hidePast s" and "visible_rows env T s = Inr bs" and "b \<in> set bs"
  shows "b \<in> set (rows s)
         \<and> (\<exists>t. new_Date env (starts_at b) = Inr (Some t) \<and> \<not> t < T)"
proof -
  from assms(2) have "sorted_list env T s (rows s) = Inr bs"
    by (simp add: visible_rows_list)
  then obtain ys where
    f: "filtered_list env T s (rows s) = Inr ys" and "set bs = set ys"
    by (auto simp add: sorted_list_def split: sum.splits if_splits dest: sort_rows_set)
  with assms(3) have "b \<in> set ys" by simp
  from filtered_list_hidePast [OF assms(1) f this] have
    "b \<in> set (rows s)" and "not_past env T b = Inr True" by simp_all
  then show ?thesis
    by (auto simp add: not_past_def split: sum.splits option.splits)
qed

theorem hidePast_drops_past_witness:
  "hidePast sample_card
   \<and> visible_rows new_york_2024 mid_may sample_card = Inr [jane_row]
   \<and> jane_row \<in> set [jane_row]
   \<and> new_Date new_york_2024 (starts_at may_row) = Inr (Some 1714572000000)
   \<and> new_Date new_york_2024 (starts_at soon_row) = Inr None
   \<and> (\<exists>t. new_Date new_york_2024 (starts_at jane_row) = Inr (Some t) \<and> \<not> t < mid_may)"
proof -
  have hide: "hidePast sample_card" by code_simp
  have shown: "visible_rows new_york_2024 mid_may sample_card = Inr [jane_row]" by code_simp
  have may: "new_Date new_york_2024 (starts_at may_row) = Inr (Some 1714572000000)"
    by code_simp
  have soon: "new_Date new_york_2024 (starts_at soon_row) = Inr None" by code_simp
  from hidePast_drops_past [OF hide shown, of jane_row] hide shown may soon
  show ?thesis by simp
qed

subsection \<open>Creating a booking: the end time\<close>

text \<open>
  Claim C6 says that the end submitted is the instant 60 minutes after the start. On a
  machine in New York, for a booking at 01:30 on 3 November 2024, \<open>handleAdd\<close> computes the
  end date as the instant one hour after the start (the second 01:30 of that night), but
  submits the same offset timestamp for start and end: the end date is written as a
  wall-clock string, which is read again as the first 01:30.
\<close>

theorem handleAdd_end_in_repeated_hour:
  "map req_body (requests (handleAdd new_york_2024 (initial_card\<lparr> form := fall_back_form \<rparr>)
                             fetch_failed fetch_failed))
     = [Some (JObj [(''start'', JStr ''2024-11-03T01:30:00-04:00''),
                    (''end'', JStr ''2024-11-03T01:30:00-04:00''),
                    (''name'', JStr ''Jane''), (''email'', JNull), (''phone'', JNull),
                    (''notes'', JNull)])]
   \<and> Date_parse new_york_2024 ''2024-11-03T01:30:00'' = Some 1730611800000
   \<and> date_plus (Date_parse new_york_2024 ''2024-11-03T01:30:00'') (60 * 60 * 1000)
       = Some 1730615400000
   \<and> toWall new_york_2024 (Some 1730615400000) = ''2024-11-03T01:30:00''
   \<and> instant_of ''2024-11-03T01:30:00-04:00'' = Some 1730611800000"
  by code_simp

subsection \<open>Sample evaluations\<close>

text \<open>
  A record with only a \<^verbatim>\<open>start\<close> field gets that value as its start time, and a record with
  a service and an address but no note gets the two joined as its note.
\<close>

lemma normalizeRow_samples:
  "map_sum id starts_at (normalizeRow (JObj [(''start'', JStr ''2024-06-01T10:00:00-04:00'')]) 0)
     = Inr (JStr ''2024-06-01T10:00:00-04:00'')"
  "map_sum id note_field
     (normalizeRow (JObj [(''service'', JStr ''AC repair''), (''address'', JStr ''12 Main St'')]) 0)
     = Inr (JStr ''AC repair | 12 Main St'')"
  by code_simp+

text \<open>
  Two records loaded, past bookings not hidden, sorted by start time: the May booking
  comes before the June booking.
\<close>

lemma load_then_sort_sample:
  "map_sum id (map name)
     (visible_rows new_york_2024 mid_may
        ((loadBookings initial_card
            (answer_with
               (JArr [JObj [(''id'', JNum 1), (''name'', JStr ''Jane''),
                            (''start'', JStr ''2024-06-01T10:00:00-04:00''),
                            (''completed'', JBool False)],
                      JObj [(''id'', JNum 2), (''name'', JStr ''Bob''),
                            (''starts_at'', JStr ''2024-05-01T10:00:00-04:00''),
                            (''completed'', JBool True)]])))
         \<lparr> hidePast := False \<rparr>))
     = Inr [JStr ''Bob'', JStr ''Jane'']"
  by code_simp

end
